theory Spec2Isabelle
  imports Main "HOL-Library.AList"
begin

section \<open>JavaScript values and objects\<close>

text \<open>
  The store passes untyped data around (\<open>data: any\<close>, object spreads). Such values are
  modelled by a datatype of JSON-like values; an object is an association list from
  property names to values, looked up with \<open>map_of\<close> (first binding wins) and written
  with \<open>AList.update\<close> (replace in place, else append), as a property write does.
  Numbers are integers here: the store never computes with them, it only tests them
  for truthiness.
\<close>

datatype jsval =
    JUndefined
  | JNull
  | JBool bool
  | JNum int
  | JStr string
  | JObj "(string \<times> jsval) list"
  | JArr "jsval list"

type_synonym jsobject = "(string \<times> jsval) list"

fun truthy :: "jsval \<Rightarrow> bool" where
  "truthy JUndefined = False"
| "truthy JNull = False"
| "truthy (JBool b) = b"
| "truthy (JNum n) = (n \<noteq> 0)"
| "truthy (JStr s) = (s \<noteq> [])"
| "truthy (JObj kvs) = True"
| "truthy (JArr vs) = True"

definition get_prop :: "jsobject \<Rightarrow> string \<Rightarrow> jsval" where
  "get_prop obj k = (case map_of obj k of None \<Rightarrow> JUndefined | Some v \<Rightarrow> v)"

definition js_or :: "jsval \<Rightarrow> jsval \<Rightarrow> jsval" where
  "js_or a b = (if truthy a then a else b)"

text \<open>
  The object spread \<open>{...a, ...b}\<close>: the properties of \<open>b\<close> are written into \<open>a\<close> one
  after the other, in the order of \<open>b\<close>, so that a name of \<open>a\<close> keeps its place and the
  new names follow in the order they have in \<open>b\<close>. A binding of \<open>b\<close> that an earlier
  one for the same name shadows is no property of \<open>b\<close> and is not written.
\<close>

definition spread :: "jsobject \<Rightarrow> jsobject \<Rightarrow> jsobject" where
  "spread a b = fold (\<lambda>(k, v). AList.update k v) (AList.clearjunk b) a"

text \<open>Optional strings (\<open>string | undefined | null\<close>): the empty string is falsy too.\<close>

fun truthy_str :: "string option \<Rightarrow> bool" where
  "truthy_str None = False"
| "truthy_str (Some s) = (s \<noteq> [])"

definition str_or :: "string option \<Rightarrow> string option \<Rightarrow> string option" where
  "str_or a b = (if truthy_str a then a else b)"

text \<open>\<open>String(v)\<close> for an optional string, as \<open>localStorage.setItem\<close> applies it.\<close>

fun to_storage :: "string option \<Rightarrow> string" where
  "to_storage None = ''undefined''"
| "to_storage (Some s) = s"

section \<open>The data model\<close>

text \<open>
  A page is a plain object. The Project type of \<open>@/types\<close> is not among the sources;
  a project is modelled by the properties that \<open>normalizeProject\<close> reads and writes
  (identity, template reference, pages) and one object \<open>attributes\<close> holding every other
  attribute the server sent (status, creation and update timestamps, ...).
\<close>

type_synonym page = jsobject

record project_data =
  data_project_id :: "string option"
  data_id :: "string option"
  data_template_image_url :: "string option"
  data_template_image_path :: "string option"
  data_pages :: "page list option"
  data_fields :: jsobject

record project =
  project_id :: "string option"
  template_image_url :: "string option"
  ident :: "string option"
  template_image_path :: "string option"
  pages :: "page list"
  attributes :: jsobject

definition normalizePage :: "page \<Rightarrow> page" where
  "normalizePage data =
     AList.update ''generated_image_path''
       (js_or (get_prop data ''generated_image_url'') (get_prop data ''generated_image_path''))
       (AList.update ''id'' (js_or (get_prop data ''page_id'') (get_prop data ''id'')) data)"

definition normalizeProject :: "project_data \<Rightarrow> project" where
  "normalizeProject data =
     \<lparr> project_id = data_project_id data,
       template_image_url = data_template_image_url data,
       ident = str_or (data_project_id data) (data_id data),
       template_image_path =
         str_or (data_template_image_url data) (data_template_image_path data),
       pages = map normalizePage (case data_pages data of None \<Rightarrow> [] | Some ps \<Rightarrow> ps),
       attributes = data_fields data \<rparr>"

definition page_id :: "page \<Rightarrow> jsval" where
  "page_id p = get_prop p ''id''"

section \<open>Error messages\<close>

text \<open>
  The user-facing messages of the source are Chinese string literals; each is a named
  constant here, with an ASCII rendering of its meaning. Only their being non-empty
  matters to the store.
\<close>

definition msg_operation_failed :: string where
  "msg_operation_failed = ''operation failed''"
definition msg_no_template :: string where
  "msg_no_template = ''the project has no template yet; choose or upload one first''"
definition msg_no_description :: string where
  "msg_no_description = ''the page has no description yet; generate or write one first''"
definition msg_image_exists :: string where
  "msg_image_exists = ''the page already has an image; choose regenerate or retry later''"
definition msg_sync_failed :: string where
  "msg_sync_failed = ''syncing the project failed''"
definition msg_project_missing :: string where
  "msg_project_missing = ''the project does not exist, it may have been deleted''"
definition msg_request_failed :: string where
  "msg_request_failed = ''request failed''"
definition msg_network_error :: string where
  "msg_network_error = ''network error, check that the backend is running''"
definition msg_task_failed :: string where
  "msg_task_failed = ''task failed''"
definition msg_task_query_failed :: string where
  "msg_task_query_failed = ''task query failed''"
definition msg_unknown_status :: string where
  "msg_unknown_status = ''unknown task status: ''"
definition msg_generation_failed :: string where
  "msg_generation_failed = ''generation failed''"
definition msg_image_failed :: string where
  "msg_image_failed = ''generating the image failed''"
definition msg_edit_failed :: string where
  "msg_edit_failed = ''editing the image failed''"
definition msg_description_failed :: string where
  "msg_description_failed = ''generating the description failed''"
definition msg_start_failed :: string where
  "msg_start_failed = ''starting the generation task failed''"
definition msg_no_task_id :: string where
  "msg_no_task_id = ''no task id received''"
definition msg_reorder_failed :: string where
  "msg_reorder_failed = ''updating the order failed''"

text \<open>
  \<open>toLowerCase\<close>, on the ASCII letters, and \<open>includes\<close>; the patterns looked for are ASCII.
\<close>

definition to_lower :: "char \<Rightarrow> char" where
  "to_lower c =
     (let n = (of_char c :: nat) in if 65 \<le> n \<and> n \<le> 90 then char_of (n + 32) else c)"

fun starts_with :: "string \<Rightarrow> string \<Rightarrow> bool" where
  "starts_with s [] = True"
| "starts_with [] (c # cs) = False"
| "starts_with (x # xs) (c # cs) = (x = c \<and> starts_with xs cs)"

fun js_includes :: "string \<Rightarrow> string \<Rightarrow> bool" where
  "js_includes [] t = (t = [])"
| "js_includes (x # xs) t = (starts_with (x # xs) t \<or> js_includes xs t)"

definition normalizeErrorMessage :: "string option \<Rightarrow> string" where
  "normalizeErrorMessage errorMessage =
     (case errorMessage of
        None \<Rightarrow> msg_operation_failed
      | Some m \<Rightarrow>
          if m = [] then msg_operation_failed
          else let message = map to_lower m in
            if js_includes message ''no template image found'' then msg_no_template
            else if js_includes message ''page must have description content''
              then msg_no_description
            else if js_includes message ''image already exists'' then msg_image_exists
            else m)"

text \<open>Decimal rendering of a status code, for the template literal of \<open>syncProject\<close>.\<close>

fun show_nat :: "nat \<Rightarrow> string" where
  "show_nat n =
     (if n < 10 then [char_of (48 + n)] else show_nat (n div 10) @ [char_of (48 + n mod 10)])"

section \<open>Failures of remote calls\<close>

text \<open>
  A rejected request is the error object of the HTTP client: an optional response
  (status code and optional body), whether the request went out, and a message. The
  body's \<open>error\<close> property is absent, a string, or an object with an optional message.
\<close>

datatype error_prop = ErrAbsent | ErrString string | ErrObject "string option"

record error_data =
  data_error :: error_prop
  data_message :: "string option"

record http_error =
  response :: "(nat \<times> error_data option) option"
  request :: bool
  message :: "string option"

fun error_prop_message :: "error_prop \<Rightarrow> string option" where
  "error_prop_message (ErrObject m) = m"
| "error_prop_message _ = None"

fun truthy_error_prop :: "error_prop \<Rightarrow> bool" where
  "truthy_error_prop ErrAbsent = False"
| "truthy_error_prop (ErrString s) = (s \<noteq> [])"
| "truthy_error_prop (ErrObject m) = True"

text \<open>\<open>errorData?.error?.message\<close>, \<open>errorData?.message\<close> and \<open>errorData?.error\<close>.\<close>

definition nested_message :: "error_data option \<Rightarrow> string option" where
  "nested_message d = (case d of None \<Rightarrow> None | Some e \<Rightarrow> error_prop_message (data_error e))"

definition top_message :: "error_data option \<Rightarrow> string option" where
  "top_message d = (case d of None \<Rightarrow> None | Some e \<Rightarrow> data_message e)"

definition top_error :: "error_data option \<Rightarrow> error_prop" where
  "top_error d = (case d of None \<Rightarrow> ErrAbsent | Some e \<Rightarrow> data_error e)"

text \<open>
  The catch block of \<open>syncProject\<close>: the message to show and \<open>shouldClearStorage\<close>.
\<close>

definition sync_failure :: "http_error \<Rightarrow> string \<times> bool" where
  "sync_failure e =
     (case response e of
        Some (status, errorData) \<Rightarrow>
          if status = 404 then
            (case str_or (nested_message errorData) (Some msg_project_missing) of
               Some m \<Rightarrow> (m, True) | None \<Rightarrow> (msg_project_missing, True))
          else if truthy_str (nested_message errorData) then
            (the (nested_message errorData), False)
          else if truthy_str (top_message errorData) then
            (the (top_message errorData), False)
          else if truthy_error_prop (top_error errorData) then
            (case top_error errorData of
               ErrString s \<Rightarrow> (s, False)
             | ErrObject m \<Rightarrow> (if truthy_str m then the m else msg_request_failed, False)
             | ErrAbsent \<Rightarrow> (msg_request_failed, False))
          else (msg_request_failed @ '': '' @ show_nat status, False)
      | None \<Rightarrow>
          if request e then (msg_network_error, False)
          else if truthy_str (message e) then (the (message e), False)
          else (msg_sync_failed, False))"

section \<open>The store, the browser and the server\<close>

text \<open>
  Remote calls and the other effects of a store operation are recorded, in order, in a
  trace: every request, every call of \<open>syncProject\<close>, every timer set or cleared and
  every warning or error written to the console (the informational \<open>console.log\<close>
  lines are left out). The state holds the store's fields, the \<open>currentProjectId\<close>
  entry of \<open>localStorage\<close>, the pending timer of the debounced page update (its
  deadline and the arguments of the call that set it), whether the \<open>timeout\<close> variable
  of the debounce closure holds a timer id (it does from the first call on: the
  variable is never reset, also not when the timer has fired) and the time in
  milliseconds.

  An asynchronous operation is run to its end in one piece: a request is answered as
  soon as it is made, and what other operations might do to the store while it waits
  is not part of its run. Where that matters, the steps are given singly, as the ticks
  of the pollers are, and hold from any state.
\<close>

datatype call =
    GetProject string
  | GetTaskStatus "string option" string
  | UpdatePageDescription "string option" string jsval
  | UpdatePageOutline "string option" string jsval
  | UpdatePage "string option" string jsobject
  | UpdatePagesOrder "string option" "string list"
  | GeneratePageDescription "string option" string bool
  | GeneratePageImage "string option" string bool
  | EditPageImage "string option" string string jsval
  | GenerateDescriptions string

datatype event =
    Remote call
  | SyncProject "string option"
  | SetTimeout nat
  | ClearTimeout
  | ConsoleWarn
  | ConsoleError

type_synonym update_args = "string option \<times> string \<times> jsobject"

record state =
  currentProject :: "project option"
  isGlobalLoading :: bool
  activeTaskId :: "string option"
  taskProgress :: jsval
  error :: "string option"
  pageGeneratingTasks :: "(string \<times> string) list"
  pageDescriptionGeneratingTasks :: "(string \<times> bool) list"
  currentProjectId :: "string option"
  timeout :: "(nat \<times> update_args) option"
  timeoutVar :: bool
  now :: nat
  trace :: "event list"

text \<open>
  The server is an oracle: what a call returns may depend on the request and on how
  much has happened so far (the length of the trace). \<open>getProject\<close> fails or returns
  the response's data, which may be missing; \<open>mutate\<close> answers the calls whose response
  is not read; \<open>submit\<close> answers the calls that may return a task id.
\<close>

record server =
  getProject :: "nat \<Rightarrow> string \<Rightarrow> http_error + project_data option"
  mutate :: "nat \<Rightarrow> call \<Rightarrow> http_error option"
  submit :: "nat \<Rightarrow> call \<Rightarrow> http_error + string option"

definition emit :: "event \<Rightarrow> state \<Rightarrow> state" where
  "emit e w = w\<lparr>trace := trace w @ [e]\<rparr>"

definition initial :: state where
  "initial =
     \<lparr> currentProject = None, isGlobalLoading = False, activeTaskId = None,
       taskProgress = JNull, error = None, pageGeneratingTasks = [],
       pageDescriptionGeneratingTasks = [], currentProjectId = None, timeout = None,
       timeoutVar = False, now = 0, trace = [] \<rparr>"

section \<open>syncProject\<close>

definition targetProjectId :: "string option \<Rightarrow> state \<Rightarrow> string option" where
  "targetProjectId projectId w =
     (if truthy_str projectId then projectId
      else case currentProject w of
        Some p \<Rightarrow>
          if truthy_str (ident p) then ident p
          else str_or (currentProjectId w) None
      | None \<Rightarrow> str_or (currentProjectId w) None)"

text \<open>
  The request \<open>syncProject\<close> makes, if it makes one: none without a project identity.
\<close>

definition fetch :: "server \<Rightarrow> string option \<Rightarrow> state \<Rightarrow> (http_error + project_data option) option" where
  "fetch srv projectId w =
     (if truthy_str (targetProjectId projectId w)
      then Some (getProject srv (length (trace w)) (the (targetProjectId projectId w)))
      else None)"

definition not_found :: "http_error \<Rightarrow> bool" where
  "not_found e = (case response e of Some (status, errorData) \<Rightarrow> status = 404 | None \<Rightarrow> False)"

definition syncProject :: "server \<Rightarrow> string option \<Rightarrow> state \<Rightarrow> state" where
  "syncProject srv projectId w =
     (case fetch srv projectId w of
        None \<Rightarrow> emit ConsoleWarn (emit (SyncProject projectId) w)
      | Some r \<Rightarrow>
          let w1 = emit (Remote (GetProject (the (targetProjectId projectId w))))
                     (emit (SyncProject projectId) w)
          in (case r of
                Inr None \<Rightarrow> w1
              | Inr (Some data) \<Rightarrow>
                  w1\<lparr> currentProject := Some (normalizeProject data),
                      currentProjectId := Some (to_storage (ident (normalizeProject data))) \<rparr>
              | Inl e \<Rightarrow>
                  if snd (sync_failure e) then
                    (emit ConsoleWarn w1)
                      \<lparr> currentProjectId := None, currentProject := None,
                        error := Some (normalizeErrorMessage (Some (fst (sync_failure e)))) \<rparr>
                  else
                    w1\<lparr> error := Some (normalizeErrorMessage (Some (fst (sync_failure e)))) \<rparr>))"

section \<open>Local page edits and the debounced writer\<close>

text \<open>The body of the debounced function: one of three endpoints, then a resync.\<close>

definition update_call :: "update_args \<Rightarrow> call" where
  "update_call args =
     (case args of (projectId, pageId, data) \<Rightarrow>
        if truthy (get_prop data ''description_content'') then
          UpdatePageDescription projectId pageId (get_prop data ''description_content'')
        else if truthy (get_prop data ''outline_content'') then
          UpdatePageOutline projectId pageId (get_prop data ''outline_content'')
        else UpdatePage projectId pageId data)"

definition persistPage :: "server \<Rightarrow> update_args \<Rightarrow> state \<Rightarrow> state" where
  "persistPage srv args w =
     (let w1 = emit (Remote (update_call args)) w in
      case mutate srv (length (trace w)) (update_call args) of
        None \<Rightarrow> syncProject srv (fst args) w1
      | Some e \<Rightarrow> emit ConsoleError w1)"

text \<open>
  \<open>debounce(func, 1000)\<close>: a call calls \<open>clearTimeout\<close> on the timer id the closure
  holds, if it holds one (a pending timer is cancelled by that; for a timer that has
  fired, the call has no effect), and sets a new timer for its own arguments. The
  closure has one \<open>timeout\<close> variable, whatever the arguments are.
\<close>

definition debouncedUpdatePage :: "update_args \<Rightarrow> state \<Rightarrow> state" where
  "debouncedUpdatePage args w =
     (let w1 = (if timeoutVar w then emit ClearTimeout w else w)
      in (emit (SetTimeout 1000) w1)
           \<lparr>timeout := Some (now w + 1000, args), timeoutVar := True\<rparr>)"

text \<open>
  Time passes: a pending timer whose deadline is reached runs the debounced body, at
  its deadline.
\<close>

definition advance :: "server \<Rightarrow> nat \<Rightarrow> state \<Rightarrow> state" where
  "advance srv d w =
     (case timeout w of
        Some (deadline, args) \<Rightarrow>
          if deadline \<le> now w + d then
            (persistPage srv args (w\<lparr>timeout := None, now := deadline\<rparr>))\<lparr>now := now w + d\<rparr>
          else w\<lparr>now := now w + d\<rparr>
      | None \<Rightarrow> w\<lparr>now := now w + d\<rparr>)"

definition merge_page :: "string \<Rightarrow> jsobject \<Rightarrow> page \<Rightarrow> page" where
  "merge_page pageId data page = (if page_id page = JStr pageId then spread page data else page)"

definition updatePageLocal :: "string \<Rightarrow> jsobject \<Rightarrow> state \<Rightarrow> state" where
  "updatePageLocal pageId data w =
     (case currentProject w of
        None \<Rightarrow> w
      | Some p \<Rightarrow>
          debouncedUpdatePage (ident p, pageId, data)
            (w\<lparr>currentProject := Some (p\<lparr>pages := map (merge_page pageId data) (pages p)\<rparr>)\<rparr>))"

text \<open>
  A burst of edits: each edit happens some milliseconds after the one before; when
  the burst is over, the window passes once more.
\<close>

fun edits :: "server \<Rightarrow> (nat \<times> string \<times> jsobject) list \<Rightarrow> state \<Rightarrow> state" where
  "edits srv [] w = w"
| "edits srv ((d, pageId, data) # es) w =
     edits srv es (updatePageLocal pageId data (advance srv d w))"

definition settle :: "server \<Rightarrow> state \<Rightarrow> state" where
  "settle srv w = advance srv 1000 w"

section \<open>reorderPages\<close>

definition find_page :: "page list \<Rightarrow> string \<Rightarrow> page option" where
  "find_page ps i = List.find (\<lambda>p. page_id p = JStr i) ps"

definition reorderPages :: "server \<Rightarrow> string list \<Rightarrow> state \<Rightarrow> state" where
  "reorderPages srv newOrder w =
     (case currentProject w of
        None \<Rightarrow> w
      | Some p \<Rightarrow>
          let reorderedPages = List.map_filter (find_page (pages p)) newOrder;
              w1 = w\<lparr>currentProject := Some (p\<lparr>pages := reorderedPages\<rparr>)\<rparr>;
              w2 = emit (Remote (UpdatePagesOrder (ident p) newOrder)) w1
          in (case mutate srv (length (trace w1)) (UpdatePagesOrder (ident p) newOrder) of
                None \<Rightarrow> w2
              | Some e \<Rightarrow>
                  syncProject srv None
                    (w2\<lparr>error := Some (if truthy_str (message e) then the (message e)
                                        else msg_reorder_failed)\<rparr>)))"

section \<open>Task polling\<close>

text \<open>
  One tick of a poller asks for the task's status once. What the poller observes is
  given tick by tick: a rejected request, a response without data, or a task. A tick
  returns the new state and whether it has scheduled another tick; a run feeds the
  observed responses to the ticks until one of them schedules no other.
\<close>

record task =
  task_status :: string
  task_progress :: jsval
  task_error_message :: "string option"
  task_error :: "string option"

type_synonym poll_response = "http_error + task option"

definition is_pending :: "string \<Rightarrow> bool" where
  "is_pending s = (s = ''PENDING'' \<or> s = ''PROCESSING'')"

definition failure_message :: "task \<Rightarrow> string \<Rightarrow> string" where
  "failure_message t fallback =
     normalizeErrorMessage
       (str_or (task_error_message t) (str_or (task_error t) (Some fallback)))"

definition thrown_message :: "http_error \<Rightarrow> string \<Rightarrow> string" where
  "thrown_message e fallback = normalizeErrorMessage (str_or (message e) (Some fallback))"

definition pollTask_tick ::
  "server \<Rightarrow> string option \<Rightarrow> string \<Rightarrow> poll_response \<Rightarrow> state \<Rightarrow> state \<times> bool" where
  "pollTask_tick srv projectId taskId r w =
     (let w1 = emit (Remote (GetTaskStatus projectId taskId)) w in
      case r of
        Inl e \<Rightarrow>
          ((emit ConsoleError w1)
             \<lparr> activeTaskId := None, isGlobalLoading := False,
               error := Some (thrown_message e msg_task_query_failed) \<rparr>, False)
      | Inr None \<Rightarrow> (emit ConsoleWarn w1, False)
      | Inr (Some t) \<Rightarrow>
          let w2 = (if truthy (task_progress t) then w1\<lparr>taskProgress := task_progress t\<rparr>
                    else w1)
          in if task_status t = ''COMPLETED'' then
               (syncProject srv None
                  (w2\<lparr>activeTaskId := None, taskProgress := JNull, isGlobalLoading := False\<rparr>),
                False)
             else if task_status t = ''FAILED'' then
               ((emit ConsoleError w2)
                  \<lparr> activeTaskId := None, taskProgress := JNull, isGlobalLoading := False,
                    error := Some (failure_message t msg_task_failed) \<rparr>, False)
             else if is_pending (task_status t) then (emit (SetTimeout 2000) w2, True)
             else
               ((emit ConsoleWarn w2)
                  \<lparr> activeTaskId := None, taskProgress := JNull, isGlobalLoading := False,
                    error := Some (msg_unknown_status @ task_status t) \<rparr>, False))"

fun pollTask_run ::
  "server \<Rightarrow> string option \<Rightarrow> string \<Rightarrow> poll_response list \<Rightarrow> state \<Rightarrow> state" where
  "pollTask_run srv projectId taskId [] w = w"
| "pollTask_run srv projectId taskId (r # rs) w =
     (case pollTask_tick srv projectId taskId r w of
        (w', again) \<Rightarrow> if again then pollTask_run srv projectId taskId rs w' else w')"

definition pollTask :: "server \<Rightarrow> string \<Rightarrow> poll_response list \<Rightarrow> state \<Rightarrow> state" where
  "pollTask srv taskId rs w =
     (case currentProject w of
        None \<Rightarrow> emit ConsoleWarn w
      | Some p \<Rightarrow> pollTask_run srv (ident p) taskId rs w)"

text \<open>The per-page poller: its slot is the page's entry of \<open>pageGeneratingTasks\<close>.\<close>

definition release :: "string \<Rightarrow> state \<Rightarrow> state" where
  "release pageId w = w\<lparr>pageGeneratingTasks := AList.delete pageId (pageGeneratingTasks w)\<rparr>"

definition pollPageTask_tick ::
  "server \<Rightarrow> string option \<Rightarrow> string \<Rightarrow> string \<Rightarrow> poll_response \<Rightarrow> state \<Rightarrow> state \<times> bool"
  where
  "pollPageTask_tick srv projectId pageId taskId r w =
     (let w1 = emit (Remote (GetTaskStatus projectId taskId)) w in
      case r of
        Inl e \<Rightarrow> (release pageId (emit ConsoleError w1), False)
      | Inr None \<Rightarrow> (emit ConsoleWarn w1, False)
      | Inr (Some t) \<Rightarrow>
          if task_status t = ''COMPLETED'' then
            (syncProject srv None (release pageId w1), False)
          else if task_status t = ''FAILED'' then
            (syncProject srv None
               ((release pageId (emit ConsoleError w1))
                  \<lparr>error := Some (failure_message t msg_generation_failed)\<rparr>), False)
          else if is_pending (task_status t) then
            (emit (SetTimeout 2000) (syncProject srv None w1), True)
          else (release pageId (emit ConsoleWarn w1), False))"

fun pollPageTask_run ::
  "server \<Rightarrow> string option \<Rightarrow> string \<Rightarrow> string \<Rightarrow> poll_response list \<Rightarrow> state \<Rightarrow> state"
  where
  "pollPageTask_run srv projectId pageId taskId [] w = w"
| "pollPageTask_run srv projectId pageId taskId (r # rs) w =
     (case pollPageTask_tick srv projectId pageId taskId r w of
        (w', again) \<Rightarrow>
          if again then pollPageTask_run srv projectId pageId taskId rs w' else w')"

definition pollPageTask ::
  "server \<Rightarrow> string \<Rightarrow> string \<Rightarrow> poll_response list \<Rightarrow> state \<Rightarrow> state" where
  "pollPageTask srv pageId taskId rs w =
     (case currentProject w of
        None \<Rightarrow> emit ConsoleWarn w
      | Some p \<Rightarrow> pollPageTask_run srv (ident p) pageId taskId rs w)"

section \<open>Single-page generation\<close>

text \<open>
  An operation that may rethrow returns the new state and the error it threw, if any.

  \<open>generatePageImage\<close> and \<open>editPageImage\<close> check the page's slot, send the request and
  wait; the slot is written when the answer has come, into the copy of
  \<open>pageGeneratingTasks\<close> that the call read when it began. So each is given in two
  pieces, as the code is around that \<open>await\<close>: the piece that begins returns the state,
  with the request sent, and, if a request was sent, that request and the copy; the
  piece that resumes takes the copy and the answer, and the responses \<open>rs\<close> its
  polling observes. The operation in one piece, with nothing else happening while it
  waits, is the one after the other.
\<close>

type_synonym pending = "call \<times> (string \<times> string) list"

definition begin_page_task :: "call \<Rightarrow> state \<Rightarrow> state \<times> pending option" where
  "begin_page_task c w = (emit (Remote c) (w\<lparr>error := None\<rparr>), Some (c, pageGeneratingTasks w))"

definition finish_page_task ::
  "server \<Rightarrow> string \<Rightarrow> string \<Rightarrow> (string \<times> string) list \<Rightarrow> http_error + string option
     \<Rightarrow> poll_response list \<Rightarrow> state \<Rightarrow> state \<times> http_error option" where
  "finish_page_task srv pageId fallback snapshot answer rs w =
     (case answer of
        Inl e \<Rightarrow> ((release pageId w)\<lparr>error := Some (thrown_message e fallback)\<rparr>, Some e)
      | Inr taskId \<Rightarrow>
          if truthy_str taskId then
            (pollPageTask srv pageId (the taskId) rs
               (syncProject srv None
                  (w\<lparr>pageGeneratingTasks := AList.update pageId (the taskId) snapshot\<rparr>)),
             None)
          else (syncProject srv None w, None))"

definition generatePageImage_begin :: "string \<Rightarrow> bool \<Rightarrow> state \<Rightarrow> state \<times> pending option" where
  "generatePageImage_begin pageId forceRegenerate w =
     (case currentProject w of
        None \<Rightarrow> (w, None)
      | Some p \<Rightarrow>
          if truthy_str (map_of (pageGeneratingTasks w) pageId) then (w, None)
          else begin_page_task (GeneratePageImage (ident p) pageId forceRegenerate) w)"

definition generatePageImage_resume ::
  "server \<Rightarrow> string \<Rightarrow> (string \<times> string) list \<Rightarrow> http_error + string option
     \<Rightarrow> poll_response list \<Rightarrow> state \<Rightarrow> state \<times> http_error option" where
  "generatePageImage_resume srv pageId snapshot answer rs w =
     finish_page_task srv pageId msg_image_failed snapshot answer rs w"

definition generatePageImage ::
  "server \<Rightarrow> string \<Rightarrow> bool \<Rightarrow> poll_response list \<Rightarrow> state \<Rightarrow> state \<times> http_error option"
  where
  "generatePageImage srv pageId forceRegenerate rs w =
     (case generatePageImage_begin pageId forceRegenerate w of
        (w1, None) \<Rightarrow> (w1, None)
      | (w1, Some (c, snapshot)) \<Rightarrow>
          generatePageImage_resume srv pageId snapshot (submit srv (length (trace w)) c) rs w1)"

definition editPageImage_begin ::
  "string \<Rightarrow> string \<Rightarrow> jsval \<Rightarrow> state \<Rightarrow> state \<times> pending option" where
  "editPageImage_begin pageId editPrompt contextImages w =
     (case currentProject w of
        None \<Rightarrow> (w, None)
      | Some p \<Rightarrow>
          if truthy_str (map_of (pageGeneratingTasks w) pageId) then (w, None)
          else begin_page_task (EditPageImage (ident p) pageId editPrompt contextImages) w)"

definition editPageImage_resume ::
  "server \<Rightarrow> string \<Rightarrow> (string \<times> string) list \<Rightarrow> http_error + string option
     \<Rightarrow> poll_response list \<Rightarrow> state \<Rightarrow> state \<times> http_error option" where
  "editPageImage_resume srv pageId snapshot answer rs w =
     finish_page_task srv pageId msg_edit_failed snapshot answer rs w"

definition editPageImage ::
  "server \<Rightarrow> string \<Rightarrow> string \<Rightarrow> jsval \<Rightarrow> poll_response list \<Rightarrow> state
     \<Rightarrow> state \<times> http_error option" where
  "editPageImage srv pageId editPrompt contextImages rs w =
     (case editPageImage_begin pageId editPrompt contextImages w of
        (w1, None) \<Rightarrow> (w1, None)
      | (w1, Some (c, snapshot)) \<Rightarrow>
          editPageImage_resume srv pageId snapshot (submit srv (length (trace w)) c) rs w1)"

text \<open>
  \<open>generatePageDescription\<close> marks the page before its first \<open>await\<close>: the piece that
  begins checks the mark and sets it, and says whether the call goes on; the piece
  that resumes is the rest (resync, request, resync, and the mark removed at the end).
\<close>

definition release_description :: "string \<Rightarrow> state \<Rightarrow> state" where
  "release_description pageId w =
     w\<lparr>pageDescriptionGeneratingTasks :=
         AList.delete pageId (pageDescriptionGeneratingTasks w)\<rparr>"

definition generatePageDescription_begin :: "string \<Rightarrow> state \<Rightarrow> state \<times> bool" where
  "generatePageDescription_begin pageId w =
     (case currentProject w of
        None \<Rightarrow> (w, False)
      | Some p \<Rightarrow>
          if map_of (pageDescriptionGeneratingTasks w) pageId = Some True then (w, False)
          else (w\<lparr> error := None,
                   pageDescriptionGeneratingTasks :=
                     AList.update pageId True (pageDescriptionGeneratingTasks w) \<rparr>, True))"

definition generatePageDescription_resume ::
  "server \<Rightarrow> string option \<Rightarrow> string \<Rightarrow> state \<Rightarrow> state \<times> http_error option" where
  "generatePageDescription_resume srv projectId pageId w1 =
     (let w2 = syncProject srv None w1;
          c = GeneratePageDescription projectId pageId True;
          w3 = emit (Remote c) w2
      in case mutate srv (length (trace w2)) c of
           None \<Rightarrow> (release_description pageId (syncProject srv None w3), None)
         | Some e \<Rightarrow>
             (release_description pageId
                (w3\<lparr>error := Some (thrown_message e msg_description_failed)\<rparr>),
              Some e))"

definition generatePageDescription ::
  "server \<Rightarrow> string \<Rightarrow> state \<Rightarrow> state \<times> http_error option" where
  "generatePageDescription srv pageId w =
     (case generatePageDescription_begin pageId w of
        (w1, False) \<Rightarrow> (w1, None)
      | (w1, True) \<Rightarrow>
          generatePageDescription_resume srv
            (case currentProject w of Some p \<Rightarrow> ident p | None \<Rightarrow> None) pageId w1)"

section \<open>Batch description generation\<close>

text \<open>
  Page identities are strings (the Page type of \<open>@/types\<close>); they are the keys of the
  per-page maps. A page without a non-empty string identity has no key.
\<close>

definition page_key :: "page \<Rightarrow> string option" where
  "page_key p = (case page_id p of JStr s \<Rightarrow> (if s = [] then None else Some s) | _ \<Rightarrow> None)"

definition mark_all :: "page list \<Rightarrow> (string \<times> bool) list" where
  "mark_all ps =
     fold (\<lambda>p tasks. case page_key p of Some k \<Rightarrow> AList.update k True tasks | None \<Rightarrow> tasks)
       ps []"

definition still_generating :: "(string \<times> bool) list \<Rightarrow> page list \<Rightarrow> (string \<times> bool) list" where
  "still_generating initialTasks ps =
     fold (\<lambda>p tasks.
             case page_key p of
               Some k \<Rightarrow>
                 if get_prop p ''status'' = JStr ''GENERATING''
                    \<or> (\<not> truthy (get_prop p ''description_content'')
                        \<and> map_of initialTasks k = Some True)
                 then AList.update k True tasks else tasks
             | None \<Rightarrow> tasks)
       ps []"

definition pollAndSync_tick ::
  "server \<Rightarrow> string \<Rightarrow> string \<Rightarrow> (string \<times> bool) list \<Rightarrow> poll_response \<Rightarrow> state
     \<Rightarrow> state \<times> bool" where
  "pollAndSync_tick srv projectId taskId initialTasks r w =
     (let w1 = emit (Remote (GetTaskStatus (Some projectId) taskId)) w in
      case r of
        Inl e \<Rightarrow> (emit (SetTimeout 2000) (syncProject srv None (emit ConsoleError w1)), True)
      | Inr None \<Rightarrow> (w1, False)
      | Inr (Some t) \<Rightarrow>
          let w2 = (if truthy (task_progress t) then w1\<lparr>taskProgress := task_progress t\<rparr>
                    else w1);
              w3 = syncProject srv None w2;
              w4 = (case currentProject w3 of
                      Some updatedProject \<Rightarrow>
                        w3\<lparr>pageDescriptionGeneratingTasks :=
                             still_generating initialTasks (pages updatedProject)\<rparr>
                    | None \<Rightarrow> w3)
          in if task_status t = ''COMPLETED'' then
               (syncProject srv None
                  (w4\<lparr> pageDescriptionGeneratingTasks := [], taskProgress := JNull,
                       activeTaskId := None \<rparr>), False)
             else if task_status t = ''FAILED'' then
               (w4\<lparr> pageDescriptionGeneratingTasks := [], taskProgress := JNull,
                    activeTaskId := None,
                    error := Some (failure_message t msg_description_failed) \<rparr>, False)
             else if is_pending (task_status t) then (emit (SetTimeout 2000) w4, True)
             else (w4, False))"

fun pollAndSync_run ::
  "server \<Rightarrow> string \<Rightarrow> string \<Rightarrow> (string \<times> bool) list \<Rightarrow> poll_response list \<Rightarrow> state
     \<Rightarrow> state" where
  "pollAndSync_run srv projectId taskId initialTasks [] w = w"
| "pollAndSync_run srv projectId taskId initialTasks (r # rs) w =
     (case pollAndSync_tick srv projectId taskId initialTasks r w of
        (w', again) \<Rightarrow>
          if again then pollAndSync_run srv projectId taskId initialTasks rs w' else w')"

definition no_task_id :: http_error where
  "no_task_id = \<lparr> response = None, request = False, message = Some msg_no_task_id \<rparr>"

definition generateDescriptions ::
  "server \<Rightarrow> poll_response list \<Rightarrow> state \<Rightarrow> state \<times> http_error option" where
  "generateDescriptions srv rs w =
     (case currentProject w of
        None \<Rightarrow> (w, None)
      | Some p \<Rightarrow>
          if \<not> truthy_str (ident p) then (w, None)
          else if filter (\<lambda>q. truthy (page_id q)) (pages p) = [] then (w, None)
          else
            let initialTasks = mark_all (filter (\<lambda>q. truthy (page_id q)) (pages p));
                w1 = w\<lparr>error := None, pageDescriptionGeneratingTasks := initialTasks\<rparr>;
                projectId = the (ident p);
                w2 = emit (Remote (GenerateDescriptions projectId)) w1
            in (case submit srv (length (trace w1)) (GenerateDescriptions projectId) of
                  Inl e \<Rightarrow>
                    ((emit ConsoleError w2)
                       \<lparr> pageDescriptionGeneratingTasks := [],
                         error := Some (thrown_message e msg_start_failed) \<rparr>, Some e)
                | Inr taskId \<Rightarrow>
                    if truthy_str taskId then
                      (pollAndSync_run srv projectId (the taskId) initialTasks rs
                         (emit (SetTimeout 2000) w2), None)
                    else
                      ((emit ConsoleError w2)
                         \<lparr> pageDescriptionGeneratingTasks := [],
                           error := Some (thrown_message no_task_id msg_start_failed) \<rparr>,
                       Some no_task_id)))"

section \<open>The material generator's poller\<close>

text \<open>
  \<open>pollMaterialTask\<close> lives in a component, with its own state: the attempts made, the
  busy flag, whether the two-second interval is set, the image handed to the preview
  and the notifications shown. It polls once at once and then on every interval tick.
\<close>

datatype toast = ToastSuccess | ToastError | ToastWarning

record material =
  attempts :: nat
  isGenerating :: bool
  pollingInterval :: bool
  previewImage :: jsval
  toasts :: "toast list"
  logged :: nat

definition maxAttempts :: nat where
  "maxAttempts = 60"

definition stop_polling :: "material \<Rightarrow> material" where
  "stop_polling m = m\<lparr>isGenerating := False, pollingInterval := False\<rparr>"

definition image_url :: "jsval \<Rightarrow> jsval" where
  "image_url progress = (case progress of JObj kvs \<Rightarrow> get_prop kvs ''image_url'' | _ \<Rightarrow> JUndefined)"

definition material_failed :: "material \<Rightarrow> material" where
  "material_failed m =
     (let m1 = m\<lparr>logged := logged m + 1\<rparr> in
      if maxAttempts \<le> attempts m1
      then stop_polling (m1\<lparr>toasts := toasts m1 @ [ToastError]\<rparr>) else m1)"

definition pollMaterialTask_tick :: "poll_response \<Rightarrow> material \<Rightarrow> material" where
  "pollMaterialTask_tick r m =
     (let m1 = m\<lparr>attempts := attempts m + 1\<rparr> in
      case r of
        Inl e \<Rightarrow> material_failed m1
      | Inr None \<Rightarrow> material_failed m1
      | Inr (Some t) \<Rightarrow>
          if task_status t = ''COMPLETED'' then
            (if truthy (image_url (task_progress t))
             then stop_polling (m1\<lparr> previewImage := image_url (task_progress t),
                                     toasts := toasts m1 @ [ToastSuccess] \<rparr>)
             else stop_polling (m1\<lparr>toasts := toasts m1 @ [ToastError]\<rparr>))
          else if task_status t = ''FAILED'' then
            stop_polling (m1\<lparr>toasts := toasts m1 @ [ToastError]\<rparr>)
          else if is_pending (task_status t) then
            (if maxAttempts \<le> attempts m1
             then stop_polling (m1\<lparr>toasts := toasts m1 @ [ToastWarning]\<rparr>) else m1)
          else m1)"

fun pollMaterialTask_run :: "poll_response list \<Rightarrow> material \<Rightarrow> material" where
  "pollMaterialTask_run [] m = m"
| "pollMaterialTask_run (r # rs) m =
     (let m' = pollMaterialTask_tick r m
      in if pollingInterval m' then pollMaterialTask_run rs m' else m')"

definition pollMaterialTask :: "poll_response list \<Rightarrow> material \<Rightarrow> material" where
  "pollMaterialTask rs m = pollMaterialTask_run rs (m\<lparr>attempts := 0, pollingInterval := True\<rparr>)"

section \<open>Reading traces\<close>

definition is_sync :: "event \<Rightarrow> bool" where
  "is_sync e = (case e of SyncProject a \<Rightarrow> True | _ \<Rightarrow> False)"

definition is_status :: "event \<Rightarrow> bool" where
  "is_status e = (case e of Remote (GetTaskStatus a b) \<Rightarrow> True | _ \<Rightarrow> False)"

text \<open>The events a poller is judged by: its status requests and the resyncs.\<close>

definition observed :: "event \<Rightarrow> bool" where
  "observed e = (is_sync e \<or> is_status e)"

definition is_remote :: "event \<Rightarrow> bool" where
  "is_remote e = (case e of Remote c \<Rightarrow> True | _ \<Rightarrow> False)"

definition is_page_write :: "event \<Rightarrow> bool" where
  "is_page_write e =
     (case e of
        Remote (UpdatePageDescription a b c) \<Rightarrow> True
      | Remote (UpdatePageOutline a b c) \<Rightarrow> True
      | Remote (UpdatePage a b c) \<Rightarrow> True
      | _ \<Rightarrow> False)"

definition page_writes :: "state \<Rightarrow> event list" where
  "page_writes w = filter is_page_write (trace w)"

definition syncs :: "state \<Rightarrow> event list" where
  "syncs w = filter is_sync (trace w)"

definition fetch_failure :: "server \<Rightarrow> string option \<Rightarrow> state \<Rightarrow> http_error option" where
  "fetch_failure srv projectId w =
     (case fetch srv projectId w of Some (Inl e) \<Rightarrow> Some e | _ \<Rightarrow> None)"

text \<open>
  A state whose project has the given identity and whose debounce timer, if set, was
  set just now.
\<close>

definition armed :: "string option \<Rightarrow> state \<Rightarrow> bool" where
  "armed i w \<longleftrightarrow>
     (case currentProject w of Some p \<Rightarrow> ident p = i | None \<Rightarrow> False)
     \<and> (case timeout w of Some (deadline, args) \<Rightarrow> deadline = now w + 1000 | None \<Rightarrow> True)"

text \<open>A response that keeps a poller going: a task still pending or processing.\<close>

definition in_flight :: "poll_response \<Rightarrow> bool" where
  "in_flight r = (case r of Inr (Some t) \<Rightarrow> is_pending (task_status t) | _ \<Rightarrow> False)"


section \<open>Sample data\<close>

definition sample_page :: "string \<Rightarrow> page" where
  "sample_page i = [(''id'', JStr i), (''status'', JStr ''DRAFT'')]"

definition sample_project :: project where
  "sample_project =
     \<lparr> project_id = None, template_image_url = None, ident = Some ''proj'',
       template_image_path = None,
       pages = [sample_page ''p1'', sample_page ''p2'', sample_page ''p3''],
       attributes = [(''status'', JStr ''DRAFT'')] \<rparr>"

definition loaded :: state where
  "loaded = initial\<lparr>currentProject := Some sample_project, currentProjectId := Some ''proj''\<rparr>"

definition sample_data :: project_data where
  "sample_data =
     \<lparr> data_project_id = Some ''proj'', data_id = None, data_template_image_url = None,
       data_template_image_path = None,
       data_pages = Some [[(''page_id'', JStr ''p2'')], [(''page_id'', JStr ''p1'')],
                          [(''page_id'', JStr ''p3'')]],
       data_fields = [(''status'', JStr ''DRAFT'')] \<rparr>"

definition network_error :: http_error where
  "network_error = \<lparr> response = None, request = True, message = Some ''Network Error'' \<rparr>"

definition gone_error :: http_error where
  "gone_error = \<lparr> response = Some (404, None), request = True, message = None \<rparr>"

definition server_down :: server where
  "server_down =
     \<lparr> getProject = (\<lambda>n i. Inl network_error), mutate = (\<lambda>n c. Some network_error),
       submit = (\<lambda>n c. Inl network_error) \<rparr>"

definition server_gone :: server where
  "server_gone =
     \<lparr> getProject = (\<lambda>n i. Inl gone_error), mutate = (\<lambda>n c. Some gone_error),
       submit = (\<lambda>n c. Inl gone_error) \<rparr>"

definition server_up :: server where
  "server_up =
     \<lparr> getProject = (\<lambda>n i. Inr (Some sample_data)), mutate = (\<lambda>n c. None),
       submit = (\<lambda>n c. Inr (Some ''t1'')) \<rparr>"

text \<open>A server that answers the project request but refuses every write.\<close>

definition server_readonly :: server where
  "server_readonly =
     \<lparr> getProject = (\<lambda>n i. Inr (Some sample_data)), mutate = (\<lambda>n c. Some network_error),
       submit = (\<lambda>n c. Inl network_error) \<rparr>"

text \<open>A server that refuses every write and answers the project request without data.\<close>

definition server_empty :: server where
  "server_empty =
     \<lparr> getProject = (\<lambda>n i. Inr None), mutate = (\<lambda>n c. Some network_error),
       submit = (\<lambda>n c. Inl network_error) \<rparr>"

text \<open>A store whose project has no identity, with nothing in \<open>localStorage\<close>.\<close>

definition anonymous :: state where
  "anonymous = initial\<lparr>currentProject := Some (sample_project\<lparr>ident := None\<rparr>)\<rparr>"

text \<open>A server that refuses every write and is unreachable for a while.\<close>

definition server_flaky :: server where
  "server_flaky =
     \<lparr> getProject = (\<lambda>n i. if n < 3 then Inl network_error else Inr (Some sample_data)),
       mutate = (\<lambda>n c. Some network_error),
       submit = (\<lambda>n c. Inl network_error) \<rparr>"

definition sample_task :: "string \<Rightarrow> task" where
  "sample_task s =
     \<lparr> task_status = s, task_progress = JUndefined, task_error_message = None,
       task_error = None \<rparr>"


text \<open>A store with a batch task and a task for page \<open>p1\<close> in flight.\<close>

definition busy :: state where
  "busy = loaded\<lparr> activeTaskId := Some ''t1'', isGlobalLoading := True,
                   pageGeneratingTasks := [(''p1'', ''t1'')] \<rparr>"

definition failed_task :: task where
  "failed_task = (sample_task ''FAILED'')\<lparr>task_error_message := Some ''boom''\<rparr>"

definition idle_material :: material where
  "idle_material =
     \<lparr> attempts = 0, isGenerating = True, pollingInterval = False, previewImage = JNull,
       toasts = [], logged = 0 \<rparr>"

text \<open>
  Two image submissions whose requests are both out and not yet answered, the first
  for page \<open>i\<close> and the second for page \<open>j\<close>; and a submission for page \<open>i\<close> answered
  with the task id \<open>t\<close>, whose poller has so far seen the task pending.
\<close>

definition image_call :: "string \<Rightarrow> call" where
  "image_call i = GeneratePageImage (Some ''proj'') i False"

definition twice_begun :: "string \<Rightarrow> string \<Rightarrow> state" where
  "twice_begun i j =
     fst (generatePageImage_begin j False (fst (generatePageImage_begin i False loaded)))"

definition answered :: "string \<Rightarrow> string \<Rightarrow> state \<Rightarrow> state" where
  "answered i t w =
     fst (generatePageImage_resume server_up i [] (Inr (Some t))
            [Inr (Some (sample_task ''PENDING''))] w)"

section \<open>Basic facts\<close>

lemma trace_emit [simp]: "trace (emit e w) = trace w @ [e]"
  by (simp add: emit_def)

lemma emit_fields [simp]:
  "currentProject (emit e w) = currentProject w"
  "currentProjectId (emit e w) = currentProjectId w"
  "pageGeneratingTasks (emit e w) = pageGeneratingTasks w"
  "pageDescriptionGeneratingTasks (emit e w) = pageDescriptionGeneratingTasks w"
  "error (emit e w) = error w"
  "activeTaskId (emit e w) = activeTaskId w"
  "isGlobalLoading (emit e w) = isGlobalLoading w"
  "taskProgress (emit e w) = taskProgress w"
  "timeout (emit e w) = timeout w"
  "timeoutVar (emit e w) = timeoutVar w"
  "now (emit e w) = now w"
  by (simp_all add: emit_def)

section \<open>Resynchronization and the stored project identity\<close>

lemma snd_sync_failure: "snd (sync_failure e) = not_found e"
  by (simp add: sync_failure_def not_found_def str_or_def
      split: option.splits prod.splits error_prop.splits)

lemma fetch_failure_eq:
  "fetch_failure srv a w = Some e \<longleftrightarrow> fetch srv a w = Some (Inl e)"
  by (simp add: fetch_failure_def split: option.splits sum.splits)

text \<open>
  Claim C5. For every invocation of \<open>syncProject\<close>: when the project request fails with
  status 404, the \<open>currentProjectId\<close> entry of \<open>localStorage\<close> is removed and
  \<open>currentProject\<close> becomes null; the entry is absent afterwards only if it was absent
  before or the request failed with 404; and after any other failure of the request the
  state is what it was, but for the trace and the error string.
\<close>

theorem syncProject_pointer:
  "(fetch_failure srv projectId w = Some e \<and> not_found e \<longrightarrow>
      currentProjectId (syncProject srv projectId w) = None
      \<and> currentProject (syncProject srv projectId w) = None)
   \<and> (currentProjectId (syncProject srv projectId w) = None \<longrightarrow>
        currentProjectId w = None
        \<or> (case fetch_failure srv projectId w of Some e' \<Rightarrow> not_found e' | None \<Rightarrow> False))
   \<and> (fetch_failure srv projectId w = Some e \<and> \<not> not_found e \<longrightarrow>
        syncProject srv projectId w =
          w\<lparr> trace := trace w @ [SyncProject projectId,
                                  Remote (GetProject (the (targetProjectId projectId w)))],
             error := Some (normalizeErrorMessage (Some (fst (sync_failure e)))) \<rparr>)"
proof (intro conjI impI)
  assume h: "fetch_failure srv projectId w = Some e \<and> not_found e"
  then have "fetch srv projectId w = Some (Inl e)" by (simp add: fetch_failure_eq)
  with h show "currentProjectId (syncProject srv projectId w) = None"
    by (simp add: syncProject_def snd_sync_failure)
  from h \<open>fetch srv projectId w = Some (Inl e)\<close>
  show "currentProject (syncProject srv projectId w) = None"
    by (simp add: syncProject_def snd_sync_failure)
next
  assume "currentProjectId (syncProject srv projectId w) = None"
  then show "currentProjectId w = None
        \<or> (case fetch_failure srv projectId w of Some e' \<Rightarrow> not_found e' | None \<Rightarrow> False)"
    by (auto simp add: syncProject_def fetch_failure_def snd_sync_failure Let_def
        split: option.splits sum.splits if_splits)
next
  assume h: "fetch_failure srv projectId w = Some e \<and> \<not> not_found e"
  then have "fetch srv projectId w = Some (Inl e)" by (simp add: fetch_failure_eq)
  with h show "syncProject srv projectId w =
          w\<lparr> trace := trace w @ [SyncProject projectId,
                                  Remote (GetProject (the (targetProjectId projectId w)))],
             error := Some (normalizeErrorMessage (Some (fst (sync_failure e)))) \<rparr>"
    by (simp add: syncProject_def snd_sync_failure emit_def)
qed

lemma fetch_gone: "fetch_failure server_gone None loaded = Some gone_error"
  by (simp add: fetch_failure_def fetch_def targetProjectId_def loaded_def initial_def
      sample_project_def server_gone_def)

lemma fetch_down: "fetch_failure server_down None loaded = Some network_error"
  by (simp add: fetch_failure_def fetch_def targetProjectId_def loaded_def initial_def
      sample_project_def server_down_def)

theorem syncProject_pointer_witness:
  "currentProjectId loaded = Some ''proj''
   \<and> currentProjectId (syncProject server_gone None loaded) = None
   \<and> currentProject (syncProject server_gone None loaded) = None
   \<and> currentProject (syncProject server_down None loaded) = Some sample_project
   \<and> currentProjectId (syncProject server_down None loaded) = Some ''proj''
   \<and> error (syncProject server_down None loaded) = Some msg_network_error"
  using syncProject_pointer [of server_gone None loaded gone_error]
    syncProject_pointer [of server_down None loaded network_error]
    fetch_gone fetch_down
  by (simp add: not_found_def gone_error_def network_error_def loaded_def initial_def
      sync_failure_def normalizeErrorMessage_def msg_network_error_def to_lower_def)

section \<open>Local page edits\<close>

lemma map_of_fold_update:
  "distinct (map fst b) \<Longrightarrow>
   map_of (fold (\<lambda>(k, v). AList.update k v) b a) x
     = (case map_of b x of Some v \<Rightarrow> Some v | None \<Rightarrow> map_of a x)"
proof (induction b arbitrary: a)
  case Nil
  then show ?case by simp
next
  case (Cons y b)
  obtain k v where y: "y = (k, v)" by (cases y)
  from Cons.prems y have k: "k \<notin> fst ` set b" and d: "distinct (map fst b)" by auto
  from k have n: "map_of b k = None" by (simp add: map_of_eq_None_iff)
  from Cons.IH [OF d, of "AList.update k v a"] n y show ?case
    by (simp add: AList.update_conv' split: option.splits)
qed

lemma get_prop_spread:
  "get_prop (spread a b) k = (if k \<in> fst ` set b then get_prop b k else get_prop a k)"
proof -
  have m: "map_of (spread a b) k
           = (case map_of b k of Some v \<Rightarrow> Some v | None \<Rightarrow> map_of a k)"
    by (simp add: spread_def map_of_fold_update AList.map_of_clearjunk)
  show ?thesis
  proof (cases "map_of b k")
    case None
    then have "k \<notin> fst ` set b" by (simp add: map_of_eq_None_iff)
    with None show ?thesis by (simp add: get_prop_def m)
  next
    case (Some v)
    then have "k \<in> fst ` set b" by (metis map_of_eq_None_iff option.distinct(1))
    with Some show ?thesis by (simp add: get_prop_def m)
  qed
qed

text \<open>
  Claim C9. A call of \<open>updatePageLocal\<close> with a project loaded changes, in the project,
  only the pages whose id is \<open>pageId\<close>: each becomes the page with the properties of the
  partial data written over it; every other page and every attribute of the project
  other than its pages is as before, and so is the rest of the store (the call only
  sets the debounce timer and issues no remote call itself). With no project loaded
  the call changes nothing at all: no timer is set, so no remote write follows.
\<close>

theorem updatePageLocal_frame:
  "(currentProject w = None \<longrightarrow> updatePageLocal pageId data w = w)
   \<and> (currentProject w = Some p \<longrightarrow>
        (\<exists>p'. currentProject (updatePageLocal pageId data w) = Some p'
           \<and> p' = p\<lparr>pages := pages p'\<rparr>
           \<and> length (pages p') = length (pages p)
           \<and> (\<forall>i < length (pages p).
                 if page_id (pages p ! i) = JStr pageId
                 then pages p' ! i = spread (pages p ! i) data
                      \<and> (\<forall>k. get_prop (pages p' ! i) k =
                             (if k \<in> fst ` set data then get_prop data k
                              else get_prop (pages p ! i) k))
                 else pages p' ! i = pages p ! i))
        \<and> updatePageLocal pageId data w =
            w\<lparr> currentProject := currentProject (updatePageLocal pageId data w),
               timeout := Some (now w + 1000, ident p, pageId, data),
               timeoutVar := True,
               trace := trace (updatePageLocal pageId data w) \<rparr>
        \<and> filter is_remote (trace (updatePageLocal pageId data w)) = filter is_remote (trace w))"
proof (intro conjI impI)
  assume "currentProject w = None"
  then show "updatePageLocal pageId data w = w" by (simp add: updatePageLocal_def)
next
  assume h: "currentProject w = Some p"
  let ?p' = "p\<lparr>pages := map (merge_page pageId data) (pages p)\<rparr>"
  have cp: "currentProject (updatePageLocal pageId data w) = Some ?p'"
    using h by (simp add: updatePageLocal_def debouncedUpdatePage_def Let_def split: option.splits)
  have "?p' = p\<lparr>pages := pages ?p'\<rparr> \<and> length (pages ?p') = length (pages p)
     \<and> (\<forall>i < length (pages p).
                 if page_id (pages p ! i) = JStr pageId
                 then pages ?p' ! i = spread (pages p ! i) data
                      \<and> (\<forall>k. get_prop (pages ?p' ! i) k =
                             (if k \<in> fst ` set data then get_prop data k
                              else get_prop (pages p ! i) k))
                 else pages ?p' ! i = pages p ! i)"
    by (simp add: merge_page_def get_prop_spread)
  with cp show "\<exists>p'. currentProject (updatePageLocal pageId data w) = Some p'
           \<and> p' = p\<lparr>pages := pages p'\<rparr>
           \<and> length (pages p') = length (pages p)
           \<and> (\<forall>i < length (pages p).
                 if page_id (pages p ! i) = JStr pageId
                 then pages p' ! i = spread (pages p ! i) data
                      \<and> (\<forall>k. get_prop (pages p' ! i) k =
                             (if k \<in> fst ` set data then get_prop data k
                              else get_prop (pages p ! i) k))
                 else pages p' ! i = pages p ! i)"
    by blast
  show "updatePageLocal pageId data w =
            w\<lparr> currentProject := currentProject (updatePageLocal pageId data w),
               timeout := Some (now w + 1000, ident p, pageId, data),
               timeoutVar := True,
               trace := trace (updatePageLocal pageId data w) \<rparr>"
    using h by (simp add: updatePageLocal_def debouncedUpdatePage_def Let_def emit_def split: option.splits)
  show "filter is_remote (trace (updatePageLocal pageId data w)) = filter is_remote (trace w)"
    using h by (simp add: updatePageLocal_def debouncedUpdatePage_def Let_def is_remote_def split: option.splits)
qed

theorem updatePageLocal_frame_witness:
  "updatePageLocal ''p2'' [(''title'', JStr ''new'')] initial = initial
   \<and> map_option pages (currentProject (updatePageLocal ''p2'' [(''title'', JStr ''new'')] loaded))
       = Some [sample_page ''p1'', sample_page ''p2'' @ [(''title'', JStr ''new'')], sample_page ''p3'']
   \<and> map_option ident (currentProject (updatePageLocal ''p2'' [(''title'', JStr ''new'')] loaded))
       = Some (Some ''proj'')"
  using updatePageLocal_frame [of initial "''p2''" "[(''title'', JStr ''new'')]" sample_project]
    updatePageLocal_frame [of loaded "''p2''" "[(''title'', JStr ''new'')]" sample_project]
  by (simp add: initial_def loaded_def sample_project_def sample_page_def updatePageLocal_def
      debouncedUpdatePage_def merge_page_def page_id_def get_prop_def spread_def Let_def emit_def)

section \<open>The debounced writer\<close>

lemma is_page_write_simps [simp]:
  "is_page_write (Remote (UpdatePageDescription a b c))"
  "is_page_write (Remote (UpdatePageOutline a b c))"
  "is_page_write (Remote (UpdatePage a b obj))"
  "\<not> is_page_write (Remote (GetProject i))"
  "\<not> is_page_write (Remote (GetTaskStatus a b))"
  "\<not> is_page_write (Remote (UpdatePagesOrder a l))"
  "\<not> is_page_write (SyncProject a)"
  "\<not> is_page_write (SetTimeout n)"
  "\<not> is_page_write ClearTimeout"
  "\<not> is_page_write ConsoleWarn"
  "\<not> is_page_write ConsoleError"
  by (simp_all add: is_page_write_def)

lemma page_writes_emit [simp]:
  "page_writes (emit e w) = page_writes w @ (if is_page_write e then [e] else [])"
  by (simp add: page_writes_def)

lemma page_writes_syncProject [simp]:
  "page_writes (syncProject srv a w) = page_writes w"
  by (simp add: syncProject_def page_writes_def is_page_write_def Let_def
      split: option.splits sum.splits)

lemma is_page_write_update_call [simp]: "is_page_write (Remote (update_call args))"
  by (cases args) (simp add: update_call_def is_page_write_def)

lemma page_writes_persistPage:
  "page_writes (persistPage srv args w) = page_writes w @ [Remote (update_call args)]"
  by (simp add: persistPage_def Let_def split: option.splits)

lemma page_writes_update [simp]:
  "page_writes (w\<lparr>now := n\<rparr>) = page_writes w"
  "page_writes (w\<lparr>timeout := t\<rparr>) = page_writes w"
  "page_writes (w\<lparr>timeoutVar := v\<rparr>) = page_writes w"
  "page_writes (w\<lparr>currentProject := c\<rparr>) = page_writes w"
  by (simp_all add: page_writes_def)

lemma timeout_syncProject [simp]: "timeout (syncProject srv a w) = timeout w"
  by (simp add: syncProject_def Let_def split: option.splits sum.splits)

lemma timeout_persistPage [simp]: "timeout (persistPage srv args w) = timeout w"
  by (simp add: persistPage_def Let_def split: option.splits)

text \<open>
  Claim C10. When the debounce timer fires, exactly one of the three page-update
  endpoints is called: the description endpoint if the pending partial data has a
  truthy \<open>description_content\<close> (whatever else it holds), else the outline endpoint if
  it has a truthy \<open>outline_content\<close>, else the generic page update with the whole
  partial data.
\<close>

theorem persist_endpoint:
  assumes "timeout w = Some (deadline, projectId, pageId, data)"
    and "deadline \<le> now w + d"
  shows "page_writes (advance srv d w) = page_writes w @
           [Remote (if truthy (get_prop data ''description_content'')
                    then UpdatePageDescription projectId pageId
                           (get_prop data ''description_content'')
                    else if truthy (get_prop data ''outline_content'')
                    then UpdatePageOutline projectId pageId (get_prop data ''outline_content'')
                    else UpdatePage projectId pageId data)]
         \<and> timeout (advance srv d w) = None"
  using assms by (simp add: advance_def page_writes_persistPage update_call_def)

theorem persist_endpoint_witness:
  "page_writes
     (advance server_up 1000
        (updatePageLocal ''p1''
           [(''outline_content'', JStr ''o''), (''description_content'', JStr ''d'')] loaded))
   = [Remote (UpdatePageDescription (Some ''proj'') ''p1'' (JStr ''d''))]"
proof -
  let ?data = "[(''outline_content'', JStr ''o''), (''description_content'', JStr ''d'')]"
  let ?w = "updatePageLocal ''p1'' ?data loaded"
  have t: "timeout ?w = Some (1000, Some ''proj'', ''p1'', ?data)"
    by (simp add: updatePageLocal_def debouncedUpdatePage_def loaded_def initial_def
        sample_project_def Let_def)
  have n: "1000 \<le> now ?w + 1000" by simp
  have "page_writes ?w = []"
    by (simp add: updatePageLocal_def debouncedUpdatePage_def loaded_def initial_def
        sample_project_def Let_def page_writes_def emit_def)
  with persist_endpoint [OF t n, of server_up] show ?thesis
    by (simp add: get_prop_def)
qed

text \<open>
  A burst: every edit after the first comes less than a second after the one before.
  Whatever pages the edits are for, the one timer is reset by each of them, and the
  only write is that of the last edit.
\<close>

lemma advance_armed:
  assumes "armed i w" "d < 1000"
  shows "advance srv d w = w\<lparr>now := now w + d\<rparr>"
  using assms by (auto simp add: armed_def advance_def split: option.splits)

lemma updatePageLocal_armed:
  assumes "currentProject w = Some p"
  shows "armed (ident p) (updatePageLocal pageId data w)"
    and "timeout (updatePageLocal pageId data w) = Some (now w + 1000, ident p, pageId, data)"
    and "page_writes (updatePageLocal pageId data w) = page_writes w"
    and "now (updatePageLocal pageId data w) = now w"
  using assms
  by (simp_all add: armed_def updatePageLocal_def debouncedUpdatePage_def Let_def
      split: option.splits)

lemma edits_burst:
  assumes "armed i w" "\<forall>e \<in> set es. fst e < 1000" "es \<noteq> []"
  shows "timeout (edits srv es w) = Some (now (edits srv es w) + 1000, i, snd (last es))
         \<and> page_writes (edits srv es w) = page_writes w"
  using assms
proof (induction es arbitrary: w)
  case Nil
  then show ?case by simp
next
  case (Cons e es)
  obtain d pageId data where e: "e = (d, pageId, data)" by (cases e)
  from Cons.prems e have d: "d < 1000" by simp
  from Cons.prems(1) obtain p where p: "currentProject w = Some p" "ident p = i"
    by (auto simp add: armed_def split: option.splits)
  let ?w1 = "updatePageLocal pageId data (advance srv d w)"
  have adv: "advance srv d w = w\<lparr>now := now w + d\<rparr>"
    using advance_armed [OF Cons.prems(1) d] .
  have cp: "currentProject (advance srv d w) = Some p" using adv p by simp
  note u = updatePageLocal_armed [OF cp, of pageId data]
  show ?case
  proof (cases "es = []")
    case True
    with e u p adv show ?thesis by simp
  next
    case False
    have "timeout (edits srv es ?w1) = Some (now (edits srv es ?w1) + 1000, i, snd (last es))
         \<and> page_writes (edits srv es ?w1) = page_writes ?w1"
      using Cons.IH [of ?w1] u(1) p(2) Cons.prems(2) False by simp
    with False e u adv show ?thesis by simp
  qed
qed

lemma burst_one_write:
  assumes "currentProject w = Some p" "timeout w = None" "\<forall>e \<in> set es. fst e < 1000"
  shows "page_writes (settle srv (edits srv ((d, pageId, data) # es) w))
         = page_writes w @ [Remote (update_call (ident p, snd (last ((d, pageId, data) # es))))]"
proof -
  have adv: "advance srv d w = w\<lparr>now := now w + d\<rparr>"
    using assms(2) by (simp add: advance_def)
  then have cp: "currentProject (advance srv d w) = Some p" using assms(1) by simp
  let ?w1 = "updatePageLocal pageId data (advance srv d w)"
  note u = updatePageLocal_armed [OF cp, of pageId data]
  let ?w2 = "edits srv es ?w1"
  have t: "timeout ?w2 = Some (now ?w2 + 1000, ident p, snd (last ((d, pageId, data) # es)))
      \<and> page_writes ?w2 = page_writes w"
  proof (cases "es = []")
    case True
    with u adv show ?thesis by simp
  next
    case False
    with edits_burst [OF u(1) assms(3) False, of srv] u adv show ?thesis by simp
  qed
  obtain b c where abc: "snd (last ((d, pageId, data) # es)) = (b, c)"
    by (cases "snd (last ((d, pageId, data) # es))")
  from t abc have t': "timeout ?w2 = Some (now ?w2 + 1000, ident p, b, c)" by simp
  have "page_writes (advance srv 1000 ?w2) = page_writes ?w2 @ [Remote (update_call (ident p, b, c))]"
    using t' by (simp add: advance_def page_writes_persistPage)
  with t abc show ?thesis by (simp add: settle_def)
qed

text \<open>
  Claim C1. Two edits half a second apart, the first to page \<open>p1\<close> and the second to
  page \<open>p2\<close>: when the window has passed, one remote write has been issued, for \<open>p2\<close>;
  the edit of \<open>p1\<close> is never written.
\<close>

theorem edits_of_two_pages:
  "page_writes
     (settle server_up
        (edits server_up
           [(0, ''p1'', [(''title'', JStr ''a'')]), (500, ''p2'', [(''title'', JStr ''b'')])]
           loaded))
   = [Remote (UpdatePage (Some ''proj'') ''p2'' [(''title'', JStr ''b'')])]"
proof -
  have "currentProject loaded = Some sample_project" "timeout loaded = None"
    by (simp_all add: loaded_def initial_def)
  from burst_one_write [OF this, of "[(500, ''p2'', [(''title'', JStr ''b'')])]" server_up 0
      "''p1''" "[(''title'', JStr ''a'')]"]
  show ?thesis
    by (simp add: update_call_def get_prop_def sample_project_def page_writes_def loaded_def
        initial_def)
qed

section \<open>Reordering\<close>

lemma reorderPages_failed:
  assumes "currentProject w = Some p"
    and "mutate srv (length (trace w)) (UpdatePagesOrder (ident p) newOrder) = Some e"
  shows "reorderPages srv newOrder w =
     syncProject srv None
       ((emit (Remote (UpdatePagesOrder (ident p) newOrder))
           (w\<lparr>currentProject := Some (p\<lparr>pages := List.map_filter (find_page (pages p)) newOrder\<rparr>)\<rparr>))
          \<lparr>error := Some (if truthy_str (message e) then the (message e) else msg_reorder_failed)\<rparr>)"
  using assms by (simp add: reorderPages_def Let_def)

lemma remote_syncProject:
  "filter is_remote (trace (syncProject srv a w))
     = filter is_remote (trace w)
         @ (if truthy_str (targetProjectId a w)
            then [Remote (GetProject (the (targetProjectId a w)))] else [])"
  by (simp add: syncProject_def fetch_def Let_def is_remote_def split: sum.splits option.splits)

text \<open>
  Claim C8, amended. When the remote persist of a reorder fails (a project being
  loaded), the store sets the error to the failure's message, or to a fixed one if
  it has none, and calls \<open>syncProject\<close> exactly once; that resync asks for the project
  by the loaded project's id or, if it has none, by the stored one. If the request
  returns a snapshot, the Mirror afterwards is the normalised snapshot, its pages in
  the server's order, and the error is still that of the failed persist. If the
  request fails too, other than with 404, the Mirror keeps the optimistically applied
  new order and the error is that of the resync; the Mirror keeps the new order as
  well when the response has no data or when there is no id to ask by, and no request
  is made then. On 404 the Mirror and the stored id are cleared.
\<close>

theorem reorderPages_rollback:
  assumes "currentProject w = Some p"
    and "mutate srv (length (trace w)) (UpdatePagesOrder (ident p) newOrder) = Some e"
  shows "syncs (reorderPages srv newOrder w) = syncs w @ [SyncProject None]
     \<and> (\<not> truthy_str (targetProjectId None w) \<longrightarrow>
          filter is_remote (trace (reorderPages srv newOrder w))
            = filter is_remote (trace w) @ [Remote (UpdatePagesOrder (ident p) newOrder)]
          \<and> currentProject (reorderPages srv newOrder w)
              = Some (p\<lparr>pages := List.map_filter (find_page (pages p)) newOrder\<rparr>)
          \<and> error (reorderPages srv newOrder w)
              = Some (if truthy_str (message e) then the (message e) else msg_reorder_failed))
     \<and> (truthy_str (targetProjectId None w) \<longrightarrow>
          filter is_remote (trace (reorderPages srv newOrder w))
            = filter is_remote (trace w)
                @ [Remote (UpdatePagesOrder (ident p) newOrder),
                   Remote (GetProject (the (targetProjectId None w)))]
          \<and> (getProject srv (Suc (length (trace w))) (the (targetProjectId None w))
                = Inr (Some d) \<longrightarrow>
              currentProject (reorderPages srv newOrder w) = Some (normalizeProject d)
              \<and> pages (normalizeProject d)
                  = map normalizePage (case data_pages d of None \<Rightarrow> [] | Some ps \<Rightarrow> ps)
              \<and> error (reorderPages srv newOrder w)
                  = Some (if truthy_str (message e) then the (message e)
                          else msg_reorder_failed))
          \<and> (getProject srv (Suc (length (trace w))) (the (targetProjectId None w))
                = Inr None \<longrightarrow>
              currentProject (reorderPages srv newOrder w)
                = Some (p\<lparr>pages := List.map_filter (find_page (pages p)) newOrder\<rparr>)
              \<and> error (reorderPages srv newOrder w)
                  = Some (if truthy_str (message e) then the (message e)
                          else msg_reorder_failed))
          \<and> (getProject srv (Suc (length (trace w))) (the (targetProjectId None w))
                = Inl e' \<and> \<not> not_found e' \<longrightarrow>
              currentProject (reorderPages srv newOrder w)
                = Some (p\<lparr>pages := List.map_filter (find_page (pages p)) newOrder\<rparr>)
              \<and> error (reorderPages srv newOrder w)
                  = Some (normalizeErrorMessage (Some (fst (sync_failure e')))))
          \<and> (getProject srv (Suc (length (trace w))) (the (targetProjectId None w))
                = Inl e' \<and> not_found e' \<longrightarrow>
              currentProject (reorderPages srv newOrder w) = None
              \<and> currentProjectId (reorderPages srv newOrder w) = None
              \<and> error (reorderPages srv newOrder w)
                  = Some (normalizeErrorMessage (Some (fst (sync_failure e'))))))"
proof -
  let ?w2 = "(emit (Remote (UpdatePagesOrder (ident p) newOrder))
           (w\<lparr>currentProject := Some (p\<lparr>pages := List.map_filter (find_page (pages p)) newOrder\<rparr>)\<rparr>))
          \<lparr>error := Some (if truthy_str (message e) then the (message e) else msg_reorder_failed)\<rparr>"
  have r: "reorderPages srv newOrder w = syncProject srv None ?w2"
    using reorderPages_failed [OF assms] .
  have t: "targetProjectId None ?w2 = targetProjectId None w"
    using assms(1) by (simp add: targetProjectId_def)
  have f: "fetch srv None ?w2
      = (if truthy_str (targetProjectId None w)
         then Some (getProject srv (Suc (length (trace w))) (the (targetProjectId None w)))
         else None)"
    by (simp add: fetch_def t)
  have s: "syncs (syncProject srv None ?w2) = syncs w @ [SyncProject None]"
    by (simp add: syncProject_def Let_def syncs_def is_sync_def split: sum.splits option.splits)
  have m: "filter is_remote (trace (syncProject srv None ?w2))
      = filter is_remote (trace w) @ Remote (UpdatePagesOrder (ident p) newOrder)
          # (if truthy_str (targetProjectId None w)
             then [Remote (GetProject (the (targetProjectId None w)))] else [])"
    by (simp add: remote_syncProject t is_remote_def)
  have c: "truthy_str (targetProjectId None w) \<Longrightarrow>
      syncProject srv None ?w2 =
        (case getProject srv (Suc (length (trace w))) (the (targetProjectId None w)) of
           Inr None \<Rightarrow>
             emit (Remote (GetProject (the (targetProjectId None w)))) (emit (SyncProject None) ?w2)
         | Inr (Some data) \<Rightarrow>
             (emit (Remote (GetProject (the (targetProjectId None w)))) (emit (SyncProject None) ?w2))
               \<lparr> currentProject := Some (normalizeProject data),
                 currentProjectId := Some (to_storage (ident (normalizeProject data))) \<rparr>
         | Inl x \<Rightarrow>
             if not_found x then
               (emit ConsoleWarn
                  (emit (Remote (GetProject (the (targetProjectId None w))))
                     (emit (SyncProject None) ?w2)))
                 \<lparr> currentProjectId := None, currentProject := None,
                   error := Some (normalizeErrorMessage (Some (fst (sync_failure x)))) \<rparr>
             else
               (emit (Remote (GetProject (the (targetProjectId None w)))) (emit (SyncProject None) ?w2))
                 \<lparr> error := Some (normalizeErrorMessage (Some (fst (sync_failure x)))) \<rparr>)"
    by (simp add: syncProject_def f t Let_def snd_sync_failure split: sum.splits option.splits)
  have n: "\<not> truthy_str (targetProjectId None w) \<Longrightarrow>
      syncProject srv None ?w2 = emit ConsoleWarn (emit (SyncProject None) ?w2)"
    by (simp add: syncProject_def f)
  have pg: "pages (normalizeProject d)
      = map normalizePage (case data_pages d of None \<Rightarrow> [] | Some ps \<Rightarrow> ps)"
    by (simp add: normalizeProject_def)
  show ?thesis
    unfolding r
  proof (intro conjI impI)
    show "syncs (syncProject srv None ?w2) = syncs w @ [SyncProject None]" by (rule s)
  qed (use m pg in \<open>simp_all add: c n\<close>)
qed

theorem reorderPages_rollback_witness:
  "map page_id (pages (the (currentProject (reorderPages server_readonly [''p3'', ''p1'', ''p2''] loaded))))
     = [JStr ''p2'', JStr ''p1'', JStr ''p3'']
   \<and> error (reorderPages server_readonly [''p3'', ''p1'', ''p2''] loaded) = Some ''Network Error''
   \<and> map page_id (pages (the (currentProject (reorderPages server_down [''p3'', ''p1'', ''p2''] loaded))))
     = [JStr ''p3'', JStr ''p1'', JStr ''p2'']
   \<and> error (reorderPages server_down [''p3'', ''p1'', ''p2''] loaded) = Some msg_network_error
   \<and> map page_id (pages (the (currentProject (reorderPages server_empty [''p3'', ''p1'', ''p2''] loaded))))
     = [JStr ''p3'', JStr ''p1'', JStr ''p2'']
   \<and> currentProject (reorderPages server_gone [''p3'', ''p1'', ''p2''] loaded) = None
   \<and> currentProjectId (reorderPages server_gone [''p3'', ''p1'', ''p2''] loaded) = None
   \<and> filter is_remote (trace (reorderPages server_down [''p3'', ''p1'', ''p2''] anonymous))
     = [Remote (UpdatePagesOrder None [''p3'', ''p1'', ''p2''])]
   \<and> error (reorderPages server_down [''p3'', ''p1'', ''p2''] anonymous) = Some ''Network Error''"
proof -
  let ?o = "[''p3'', ''p1'', ''p2'']"
  have l: "currentProject loaded = Some sample_project" "trace loaded = []"
    "targetProjectId None loaded = Some ''proj''" "ident sample_project = Some ''proj''"
    by (simp_all add: loaded_def initial_def sample_project_def targetProjectId_def)
  have an: "currentProject anonymous = Some (sample_project\<lparr>ident := None\<rparr>)"
    "trace anonymous = []" "\<not> truthy_str (targetProjectId None anonymous)"
    by (simp_all add: anonymous_def initial_def targetProjectId_def str_or_def)
  have m: "mutate server_readonly (length (trace loaded)) (UpdatePagesOrder (ident sample_project) ?o)
             = Some network_error"
    "mutate server_down (length (trace loaded)) (UpdatePagesOrder (ident sample_project) ?o)
             = Some network_error"
    "mutate server_empty (length (trace loaded)) (UpdatePagesOrder (ident sample_project) ?o)
             = Some network_error"
    "mutate server_gone (length (trace loaded)) (UpdatePagesOrder (ident sample_project) ?o)
             = Some gone_error"
    "mutate server_down (length (trace anonymous))
       (UpdatePagesOrder (ident (sample_project\<lparr>ident := None\<rparr>)) ?o) = Some network_error"
    by (simp_all add: server_readonly_def server_down_def server_empty_def server_gone_def)
  have g: "getProject server_readonly (Suc (length (trace loaded))) (the (targetProjectId None loaded))
             = Inr (Some sample_data)"
    "getProject server_down (Suc (length (trace loaded))) (the (targetProjectId None loaded))
             = Inl network_error \<and> \<not> not_found network_error"
    "getProject server_empty (Suc (length (trace loaded))) (the (targetProjectId None loaded))
             = Inr None"
    "getProject server_gone (Suc (length (trace loaded))) (the (targetProjectId None loaded))
             = Inl gone_error \<and> not_found gone_error"
    by (simp_all add: server_readonly_def server_down_def server_empty_def server_gone_def
        not_found_def network_error_def gone_error_def)
  have e: "message network_error = Some ''Network Error''"
    "fst (sync_failure network_error) = msg_network_error"
    "normalizeErrorMessage (Some msg_network_error) = msg_network_error"
    by (simp_all add: network_error_def sync_failure_def normalizeErrorMessage_def
        msg_network_error_def to_lower_def)
  from reorderPages_rollback [OF l(1) m(1), of sample_data]
    reorderPages_rollback [OF l(1) m(2), of _ network_error]
    reorderPages_rollback [OF l(1) m(3)]
    reorderPages_rollback [OF l(1) m(4), of _ gone_error]
    reorderPages_rollback [OF an(1) m(5)]
    l(3) an(3) g e
  show ?thesis
    by (simp add: sample_project_def sample_page_def find_page_def List.map_filter_def
        page_id_def get_prop_def normalizeProject_def sample_data_def normalizePage_def
        js_or_def anonymous_def initial_def)
qed

text \<open>
  The claim as stated fails: the write is refused and the resync's request fails as
  well; the Mirror is left in the new order, though the server, when it answers again,
  has another.
\<close>

theorem reorderPages_counterexample:
  "mutate server_flaky (length (trace loaded))
       (UpdatePagesOrder (Some ''proj'') [''p3'', ''p1'', ''p2'']) = Some network_error
   \<and> map page_id (pages (the (currentProject
         (reorderPages server_flaky [''p3'', ''p1'', ''p2''] loaded))))
       = [JStr ''p3'', JStr ''p1'', JStr ''p2'']
   \<and> getProject server_flaky
         (length (trace (reorderPages server_flaky [''p3'', ''p1'', ''p2''] loaded))) ''proj''
       = Inr (Some sample_data)
   \<and> map page_id (pages (normalizeProject sample_data)) = [JStr ''p2'', JStr ''p1'', JStr ''p3'']"
  by (simp add: server_flaky_def reorderPages_def Let_def loaded_def initial_def
      sample_project_def sample_page_def find_page_def List.map_filter_def page_id_def
      get_prop_def syncProject_def fetch_def targetProjectId_def emit_def sync_failure_def
      network_error_def normalizeProject_def sample_data_def normalizePage_def js_or_def)

section \<open>Pollers\<close>

lemma observed_simps [simp]:
  "observed (SyncProject a)" "observed (Remote (GetTaskStatus i t))"
  "\<not> observed (Remote (GetProject q))" "\<not> observed ConsoleWarn" "\<not> observed ConsoleError"
  "\<not> observed (SetTimeout n)" "\<not> observed ClearTimeout"
  by (simp_all add: observed_def is_sync_def is_status_def)



lemma is_sync_simps [simp]:
  "is_sync (SyncProject a)" "\<not> is_sync (Remote c)" "\<not> is_sync ConsoleWarn"
  "\<not> is_sync ConsoleError" "\<not> is_sync (SetTimeout n)" "\<not> is_sync ClearTimeout"
  by (simp_all add: is_sync_def)

lemma syncs_emit [simp]: "syncs (emit e w) = syncs w @ (if is_sync e then [e] else [])"
  by (simp add: syncs_def)

lemma syncs_update [simp]:
  "syncs (w\<lparr>currentProject := c\<rparr>) = syncs w"
  "syncs (w\<lparr>isGlobalLoading := b\<rparr>) = syncs w"
  "syncs (w\<lparr>activeTaskId := a\<rparr>) = syncs w"
  "syncs (w\<lparr>taskProgress := g\<rparr>) = syncs w"
  "syncs (w\<lparr>error := m\<rparr>) = syncs w"
  "syncs (w\<lparr>pageGeneratingTasks := ts\<rparr>) = syncs w"
  "syncs (w\<lparr>pageDescriptionGeneratingTasks := ds\<rparr>) = syncs w"
  "syncs (w\<lparr>currentProjectId := i\<rparr>) = syncs w"
  "syncs (w\<lparr>timeout := t\<rparr>) = syncs w"
  "syncs (w\<lparr>timeoutVar := v\<rparr>) = syncs w"
  "syncs (w\<lparr>now := n\<rparr>) = syncs w"
  by (simp_all add: syncs_def)

lemma syncs_release [simp]: "syncs (release pageId w) = syncs w"
  by (simp add: release_def)

lemma syncs_syncProject [simp]: "syncs (syncProject srv a w) = syncs w @ [SyncProject a]"
  by (simp add: syncProject_def Let_def syncs_def is_sync_def split: option.splits sum.splits)




lemma syncProject_frame [simp]:
  "pageGeneratingTasks (syncProject srv a w) = pageGeneratingTasks w"
  "pageDescriptionGeneratingTasks (syncProject srv a w) = pageDescriptionGeneratingTasks w"
  "activeTaskId (syncProject srv a w) = activeTaskId w"
  "isGlobalLoading (syncProject srv a w) = isGlobalLoading w"
  "taskProgress (syncProject srv a w) = taskProgress w"
  "now (syncProject srv a w) = now w"
  by (simp_all add: syncProject_def Let_def split: option.splits sum.splits)

lemma busy_simps:
  "currentProject busy = Some sample_project" "trace busy = []" "syncs busy = []"
  "ident sample_project = Some ''proj''" "error busy = None"
  "pageGeneratingTasks busy = [(''p1'', ''t1'')]" "activeTaskId busy = Some ''t1''"
  by (simp_all add: busy_def loaded_def initial_def sample_project_def syncs_def)

text \<open>
  Claim C4. A task polled as FAILED with the message \<open>boom\<close>: \<open>pollTask\<close> shows
  the message and clears the active task, and calls \<open>syncProject\<close> not once;
  \<open>pollPageTask\<close>, on the same answer, releases the page's slot and does call it.
\<close>

theorem pollTask_failed_no_resync:
  "syncs (pollTask server_up ''t1'' [Inr (Some failed_task)] busy) = []
   \<and> error (pollTask server_up ''t1'' [Inr (Some failed_task)] busy) = Some ''boom''
   \<and> activeTaskId (pollTask server_up ''t1'' [Inr (Some failed_task)] busy) = None
   \<and> syncs (pollPageTask server_up ''p1'' ''t1'' [Inr (Some failed_task)] busy)
       = [SyncProject None]
   \<and> pageGeneratingTasks (pollPageTask server_up ''p1'' ''t1'' [Inr (Some failed_task)] busy) = []"
proof -
  have m: "failure_message failed_task fallback = ''boom''" for fallback
    by (simp add: failure_message_def failed_task_def sample_task_def str_or_def
        normalizeErrorMessage_def to_lower_def)
  have s: "task_status failed_task = ''FAILED''" "task_progress failed_task = JUndefined"
    by (simp_all add: failed_task_def sample_task_def)
  show ?thesis
    by (simp add: pollTask_def pollTask_tick_def pollPageTask_def pollPageTask_tick_def
        Let_def busy_simps m s release_def)
qed







section \<open>Statuses the pollers do not know\<close>

text \<open>
  Claim C7. A task polled with the status \<open>CANCELLED\<close>, which no poller knows.
  \<open>pollTask\<close> stops, clears the active task and shows an error. \<open>pollPageTask\<close>
  stops and releases the page's slot, but shows no error. The batch poller of
  \<open>generateDescriptions\<close> stops and leaves every page marked as generating.
  \<open>pollMaterialTask\<close> goes on polling.
\<close>

theorem unknown_status:
  "error (pollTask server_up ''t1'' [Inr (Some (sample_task ''CANCELLED''))] busy)
     = Some (msg_unknown_status @ ''CANCELLED'')
   \<and> activeTaskId (pollTask server_up ''t1'' [Inr (Some (sample_task ''CANCELLED''))] busy) = None
   \<and> error (pollPageTask server_up ''p1'' ''t1'' [Inr (Some (sample_task ''CANCELLED''))] busy)
       = None
   \<and> pageGeneratingTasks
        (pollPageTask server_up ''p1'' ''t1'' [Inr (Some (sample_task ''CANCELLED''))] busy) = []
   \<and> \<not> snd (pollAndSync_tick server_up ''proj'' ''t1''
              [(''p1'', True), (''p2'', True), (''p3'', True)]
              (Inr (Some (sample_task ''CANCELLED'')))
              (loaded\<lparr>pageDescriptionGeneratingTasks :=
                        [(''p1'', True), (''p2'', True), (''p3'', True)]\<rparr>))
   \<and> pageDescriptionGeneratingTasks
        (fst (pollAndSync_tick server_up ''proj'' ''t1''
              [(''p1'', True), (''p2'', True), (''p3'', True)]
              (Inr (Some (sample_task ''CANCELLED'')))
              (loaded\<lparr>pageDescriptionGeneratingTasks :=
                        [(''p1'', True), (''p2'', True), (''p3'', True)]\<rparr>)))
       = [(''p2'', True), (''p1'', True), (''p3'', True)]
   \<and> error
        (fst (pollAndSync_tick server_up ''proj'' ''t1''
              [(''p1'', True), (''p2'', True), (''p3'', True)]
              (Inr (Some (sample_task ''CANCELLED'')))
              (loaded\<lparr>pageDescriptionGeneratingTasks :=
                        [(''p1'', True), (''p2'', True), (''p3'', True)]\<rparr>))) = None
   \<and> pollingInterval
        (pollMaterialTask
           [Inr (Some (sample_task ''CANCELLED'')), Inr (Some (sample_task ''CANCELLED''))]
           idle_material)
   \<and> attempts
        (pollMaterialTask
           [Inr (Some (sample_task ''CANCELLED'')), Inr (Some (sample_task ''CANCELLED''))]
           idle_material) = 2"
proof -
  have s: "task_status (sample_task ''CANCELLED'') = ''CANCELLED''"
    "task_progress (sample_task ''CANCELLED'') = JUndefined"
    by (simp_all add: sample_task_def)
  have a: "error (pollTask server_up ''t1'' [Inr (Some (sample_task ''CANCELLED''))] busy)
     = Some (msg_unknown_status @ ''CANCELLED'')
   \<and> activeTaskId (pollTask server_up ''t1'' [Inr (Some (sample_task ''CANCELLED''))] busy) = None"
    by (simp add: pollTask_def pollTask_tick_def busy_simps s is_pending_def)
  have b: "error (pollPageTask server_up ''p1'' ''t1'' [Inr (Some (sample_task ''CANCELLED''))] busy)
       = None
   \<and> pageGeneratingTasks
        (pollPageTask server_up ''p1'' ''t1'' [Inr (Some (sample_task ''CANCELLED''))] busy) = []"
    by (simp add: pollPageTask_def pollPageTask_tick_def busy_simps s is_pending_def release_def)
  let ?w = "loaded\<lparr>pageDescriptionGeneratingTasks :=
                        [(''p1'', True), (''p2'', True), (''p3'', True)]\<rparr>"
  let ?w1 = "syncProject server_up None (emit (Remote (GetTaskStatus (Some ''proj'') ''t1'')) ?w)"
  have c1: "currentProject ?w1 = Some (normalizeProject sample_data)" "error ?w1 = None"
    by (simp_all add: syncProject_def fetch_def targetProjectId_def loaded_def initial_def
        sample_project_def server_up_def emit_def)
  have c2: "still_generating [(''p1'', True), (''p2'', True), (''p3'', True)]
       (pages (normalizeProject sample_data)) = [(''p2'', True), (''p1'', True), (''p3'', True)]"
    by (simp add: still_generating_def normalizeProject_def sample_data_def normalizePage_def
        page_key_def page_id_def get_prop_def js_or_def)
  have c: "pollAndSync_tick server_up ''proj'' ''t1''
              [(''p1'', True), (''p2'', True), (''p3'', True)]
              (Inr (Some (sample_task ''CANCELLED''))) ?w
      = (?w1\<lparr>pageDescriptionGeneratingTasks := [(''p2'', True), (''p1'', True), (''p3'', True)]\<rparr>,
         False)"
    by (simp add: pollAndSync_tick_def Let_def s is_pending_def c1 c2)
  have d: "pollingInterval
        (pollMaterialTask
           [Inr (Some (sample_task ''CANCELLED'')), Inr (Some (sample_task ''CANCELLED''))]
           idle_material)
   \<and> attempts
        (pollMaterialTask
           [Inr (Some (sample_task ''CANCELLED'')), Inr (Some (sample_task ''CANCELLED''))]
           idle_material) = 2"
    by (simp add: pollMaterialTask_def pollMaterialTask_tick_def idle_material_def s
        is_pending_def Let_def)
  from a b c c1 d show ?thesis by simp
qed

section \<open>Duplicate submissions\<close>

lemma pollPageTask_tick_in_flight:
  assumes "in_flight r"
  shows "snd (pollPageTask_tick srv i pageId taskId r w)"
    and "pageGeneratingTasks (fst (pollPageTask_tick srv i pageId taskId r w))
         = pageGeneratingTasks w"
  using assms
  by (auto simp add: in_flight_def pollPageTask_tick_def Let_def is_pending_def
      split: sum.splits option.splits)

lemma pollPageTask_run_in_flight:
  "list_all in_flight rs \<Longrightarrow>
   pageGeneratingTasks (pollPageTask_run srv i pageId taskId rs w) = pageGeneratingTasks w"
proof (induction rs arbitrary: w)
  case Nil
  then show ?case by simp
next
  case (Cons r rs)
  then have r: "in_flight r" and rs: "list_all in_flight rs" by simp_all
  obtain w' again where t: "pollPageTask_tick srv i pageId taskId r w = (w', again)"
    by (cases "pollPageTask_tick srv i pageId taskId r w")
  with pollPageTask_tick_in_flight [OF r, of srv i pageId taskId w]
  have "again" "pageGeneratingTasks w' = pageGeneratingTasks w" by simp_all
  with t Cons.IH [OF rs, of w'] show ?case by simp
qed

lemma pollPageTask_in_flight:
  "list_all in_flight rs \<Longrightarrow>
   pageGeneratingTasks (pollPageTask srv pageId taskId rs w) = pageGeneratingTasks w"
  by (simp add: pollPageTask_def pollPageTask_run_in_flight split: option.splits)

text \<open>
  Once a page has its entry in the registry, a submission for it does nothing: the
  state, and with it the trace of remote calls and the registry, is unchanged.
\<close>

lemma registered_submission:
  "(truthy_str (map_of (pageGeneratingTasks w) pageId) \<longrightarrow>
      generatePageImage_begin pageId forceRegenerate w = (w, None)
      \<and> generatePageImage srv pageId forceRegenerate rs w = (w, None)
      \<and> editPageImage_begin pageId editPrompt contextImages w = (w, None)
      \<and> editPageImage srv pageId editPrompt contextImages rs w = (w, None))
   \<and> (map_of (pageDescriptionGeneratingTasks w) pageId = Some True \<longrightarrow>
      generatePageDescription_begin pageId w = (w, False)
      \<and> generatePageDescription srv pageId w = (w, None))"
  by (simp add: generatePageImage_def generatePageImage_begin_def editPageImage_def
      editPageImage_begin_def generatePageDescription_def generatePageDescription_begin_def
      split: option.splits)

text \<open>
  A submission that runs in one piece, is given a task id and whose polling sees
  nothing but PENDING and PROCESSING leaves the page registered under that id.
\<close>

lemma submission_registers:
  assumes "currentProject w = Some p"
    and "\<not> truthy_str (map_of (pageGeneratingTasks w) pageId)"
    and "submit srv (length (trace w)) (GeneratePageImage (ident p) pageId f) = Inr (Some taskId)"
    and "taskId \<noteq> []"
    and "list_all in_flight rs"
  shows "pageGeneratingTasks (fst (generatePageImage srv pageId f rs w))
         = AList.update pageId taskId (pageGeneratingTasks w)"
  using assms
  by (simp add: generatePageImage_def generatePageImage_begin_def begin_page_task_def
      generatePageImage_resume_def finish_page_task_def pollPageTask_in_flight)

text \<open>
  A description submission marks its page as it begins, so that a second one,
  begun at once, does nothing.
\<close>

lemma description_marked_at_once:
  "currentProject w = Some p \<Longrightarrow>
   generatePageDescription_begin pageId (fst (generatePageDescription_begin pageId w))
     = (fst (generatePageDescription_begin pageId w), False)"
  by (simp add: generatePageDescription_begin_def AList.update_conv')

text \<open>
  Claim C2. With the sample project loaded and no task registered,
  \<open>generatePageImage\<close> is called for page \<open>p1\<close> twice in immediate succession, the
  second call before the first one's request is answered. The slot is still empty
  when the second call checks it, so the second call is no no-op: it sends a
  request of its own, and when both are answered (with the task ids \<open>t1\<close> and \<open>t2\<close>)
  two tasks are polled for the one page. Likewise, calls for \<open>p1\<close> and \<open>p2\<close> that
  overlap: the call for \<open>p1\<close>, answered last, writes its slot into the registry as it
  was when the call began, and the slot of \<open>p2\<close>, registered and not released, is
  gone, so that a further submission for \<open>p2\<close> goes out as well.
\<close>

theorem overlapping_submissions:
  "snd (generatePageImage_begin ''p1'' False loaded) = Some (image_call ''p1'', [])
   \<and> snd (generatePageImage_begin ''p1'' False (fst (generatePageImage_begin ''p1'' False loaded)))
       = Some (image_call ''p1'', [])
   \<and> filter is_remote (trace (twice_begun ''p1'' ''p1''))
       = [Remote (image_call ''p1''), Remote (image_call ''p1'')]
   \<and> filter is_status (trace (answered ''p1'' ''t2'' (answered ''p1'' ''t1'' (twice_begun ''p1'' ''p1''))))
       = [Remote (GetTaskStatus (Some ''proj'') ''t1''), Remote (GetTaskStatus (Some ''proj'') ''t2'')]
   \<and> pageGeneratingTasks (answered ''p2'' ''t2'' (twice_begun ''p1'' ''p2'')) = [(''p2'', ''t2'')]
   \<and> pageGeneratingTasks (answered ''p1'' ''t1'' (answered ''p2'' ''t2'' (twice_begun ''p1'' ''p2'')))
       = [(''p1'', ''t1'')]
   \<and> snd (generatePageImage_begin ''p2'' False
             (answered ''p1'' ''t1'' (answered ''p2'' ''t2'' (twice_begun ''p1'' ''p2''))))
       = Some (image_call ''p2'', [(''p1'', ''t1'')])"
proof -
  have b: "generatePageImage_begin i False w
           = (emit (Remote (image_call i)) (w\<lparr>error := None\<rparr>), Some (image_call i, []))"
    if "\<exists>p. currentProject w = Some p \<and> ident p = Some ''proj''" "pageGeneratingTasks w = []"
    for i w
    using that
    by (auto simp add: generatePageImage_begin_def begin_page_task_def image_call_def)
  have l: "\<exists>p. currentProject loaded = Some p \<and> ident p = Some ''proj''"
    "pageGeneratingTasks loaded = []" "trace loaded = []"
    by (simp_all add: loaded_def initial_def sample_project_def)
  have t: "twice_begun i j
           = emit (Remote (image_call j)) (emit (Remote (image_call i)) (loaded\<lparr>error := None\<rparr>))"
    for i j
    using l by (simp add: twice_begun_def b emit_def)
  have cp: "currentProject (syncProject server_up None w) = Some (normalizeProject sample_data)"
    if "\<exists>p. currentProject w = Some p \<and> ident p = Some ''proj''" for w
    using that
    by (auto simp add: syncProject_def fetch_def targetProjectId_def server_up_def)
  have i: "ident (normalizeProject sample_data) = Some ''proj''"
    by (simp add: normalizeProject_def sample_data_def str_or_def)
  have a: "answered i tid w
           = emit (SetTimeout 2000)
               (syncProject server_up None
                  (emit (Remote (GetTaskStatus (Some ''proj'') tid))
                     (syncProject server_up None (w\<lparr>pageGeneratingTasks := [(i, tid)]\<rparr>))))"
    if "\<exists>p. currentProject w = Some p \<and> ident p = Some ''proj''" "tid \<noteq> []" for i tid w
    using that cp [of "w\<lparr>pageGeneratingTasks := [(i, tid)]\<rparr>"]
    by (auto simp add: answered_def generatePageImage_resume_def finish_page_task_def
        pollPageTask_def pollPageTask_tick_def sample_task_def is_pending_def i)
  have st: "filter is_status (trace (syncProject srv x w)) = filter is_status (trace w)" for srv x w
    by (simp add: syncProject_def Let_def is_status_def split: option.splits sum.splits)
  have ca: "\<exists>p. currentProject (answered i tid w) = Some p \<and> ident p = Some ''proj''"
    if "\<exists>p. currentProject w = Some p \<and> ident p = Some ''proj''" "tid \<noteq> []" for i tid w
    using that by (simp add: a cp i)
  have ct: "\<exists>p. currentProject (twice_begun i j) = Some p \<and> ident p = Some ''proj''" for i j
    using l by (simp add: t)
  have 1: "snd (generatePageImage_begin ''p1'' False loaded) = Some (image_call ''p1'', [])"
    using l by (simp add: b)
  have 2: "snd (generatePageImage_begin ''p1'' False (fst (generatePageImage_begin ''p1'' False loaded)))
       = Some (image_call ''p1'', [])"
    using l by (simp add: b)
  have 3: "filter is_remote (trace (twice_begun ''p1'' ''p1''))
       = [Remote (image_call ''p1''), Remote (image_call ''p1'')]"
    using l by (simp add: t is_remote_def)
  have 4: "filter is_status (trace (answered ''p1'' ''t2'' (answered ''p1'' ''t1'' (twice_begun ''p1'' ''p1''))))
       = [Remote (GetTaskStatus (Some ''proj'') ''t1''), Remote (GetTaskStatus (Some ''proj'') ''t2'')]"
  proof -
    let ?w0 = "twice_begun ''p1'' ''p1''"
    let ?w1 = "answered ''p1'' ''t1'' ?w0"
    have s0: "filter is_status (trace ?w0) = []"
      using l by (simp add: t is_status_def image_call_def)
    have s1: "filter is_status (trace ?w1) = [Remote (GetTaskStatus (Some ''proj'') ''t1'')]"
      using s0 by (simp add: a [OF ct] st is_status_def)
    have "\<exists>p. currentProject ?w1 = Some p \<and> ident p = Some ''proj''"
      using ca [OF ct] by simp
    from a [OF this, of "''t2''" "''p1''"] s1 show ?thesis
      by (simp add: st is_status_def)
  qed
  have 5: "pageGeneratingTasks (answered ''p2'' ''t2'' (twice_begun ''p1'' ''p2'')) = [(''p2'', ''t2'')]"
    by (simp add: a ct)
  have 6: "pageGeneratingTasks (answered ''p1'' ''t1'' (answered ''p2'' ''t2'' (twice_begun ''p1'' ''p2'')))
       = [(''p1'', ''t1'')]"
  proof -
    let ?w1 = "answered ''p2'' ''t2'' (twice_begun ''p1'' ''p2'')"
    have "\<exists>p. currentProject ?w1 = Some p \<and> ident p = Some ''proj''"
      using ca [OF ct] by simp
    then have "answered ''p1'' ''t1'' ?w1
           = emit (SetTimeout 2000)
               (syncProject server_up None
                  (emit (Remote (GetTaskStatus (Some ''proj'') ''t1''))
                     (syncProject server_up None (?w1\<lparr>pageGeneratingTasks := [(''p1'', ''t1'')]\<rparr>))))"
      by (rule a) simp
    then show ?thesis by simp
  qed
  have 7: "snd (generatePageImage_begin ''p2'' False
             (answered ''p1'' ''t1'' (answered ''p2'' ''t2'' (twice_begun ''p1'' ''p2''))))
       = Some (image_call ''p2'', [(''p1'', ''t1'')])"
  proof -
    let ?w1 = "answered ''p2'' ''t2'' (twice_begun ''p1'' ''p2'')"
    let ?w2 = "answered ''p1'' ''t1'' ?w1"
    have "\<exists>p. currentProject ?w1 = Some p \<and> ident p = Some ''proj''"
      using ca [OF ct] by simp
    then have "\<exists>p. currentProject ?w2 = Some p \<and> ident p = Some ''proj''"
      by (rule ca) simp
    with 6 show ?thesis
      by (auto simp add: generatePageImage_begin_def begin_page_task_def image_call_def)
  qed
  from 1 2 3 4 5 6 7 show ?thesis by blast
qed

end
